theory Spec2Isabelle
  imports Main "HOL-Library.Word" "HOL-Library.Multiset"
begin

unbundle bit_operations_syntax

section \<open>Data model of the coordination client (ZooKeeper.cpp)\<close>

text \<open>
  The client of \<^verbatim>\<open>src/Common/ZooKeeper/ZooKeeper.cpp\<close> is embedded function by function.
  Exceptions are values of the type \<open>exception\<close> and a call that may raise returns
  \<open>exception + 'a\<close> (\<open>Inl\<close> is the raise). The protocol engine behind \<^verbatim>\<open>impl\<close> is an
  external collaborator: it is a parameter of the model (a record of operations on an
  engine state of any type), and every call of the client threads the engine state.
\<close>

type_synonym int32 = "32 word"

text \<open>
  \<^verbatim>\<open>Coordination::Error\<close>. The enumeration is declared in IKeeper.h; the constructors are
  the codes that ZooKeeper.cpp names, and \<open>ZOTHERERROR\<close> stands for every further code of
  the enumeration. \<open>ZOK\<close> is the code with the integer value zero.
\<close>

datatype Error =
    ZOK
  | ZCONNECTIONLOSS
  | ZOPERATIONTIMEOUT
  | ZBADARGUMENTS
  | ZNONODE
  | ZBADVERSION
  | ZNOCHILDRENFOREPHEMERALS
  | ZNODEEXISTS
  | ZNOTEMPTY
  | ZOTHERERROR nat

text \<open>
  Modelled from the spec: \<^verbatim>\<open>Coordination::isUserError\<close> is defined in IKeeper.cpp, which is
  outside ZooKeeper.cpp. The spec lists the recoverable (user) errors as: node
  missing, node already exists, version mismatch, node not empty, ephemeral-with-children
  violation.
\<close>

definition isUserError :: "Error \<Rightarrow> bool" where
  "isUserError code =
     (code = ZNONODE \<or> code = ZBADVERSION \<or> code = ZNOCHILDRENFOREPHEMERALS
      \<or> code = ZNODEEXISTS \<or> code = ZNOTEMPTY)"

text \<open>\<^verbatim>\<open>DB::ErrorCodes\<close> used by this file.\<close>

datatype DB_ErrorCode = LOGICAL_ERROR | NOT_IMPLEMENTED | BAD_ARGUMENTS

text \<open>The four request kinds built by \<^verbatim>\<open>makeCreateRequest\<close> ... \<^verbatim>\<open>makeCheckRequest\<close>.\<close>

datatype Request =
    CreateRequest string string bool bool
  | RemoveRequest string int32
  | SetRequest string string int32
  | CheckRequest string int32

fun getPath :: "Request \<Rightarrow> string" where
  "getPath (CreateRequest path content is_ephemeral is_sequential) = path"
| "getPath (RemoveRequest path ver) = path"
| "getPath (SetRequest path content ver) = path"
| "getPath (CheckRequest path ver) = path"

text \<open>
  Responses. Every response has the field \<open>error\<close> of the base class; the derived classes
  add their payload. An element of \<^verbatim>\<open>Coordination::Responses\<close> is read through the base class
  only.
\<close>

record Stat =
  version :: int
  numChildren :: int

record Response =
  error :: Error

record CreateResponse = Response +
  path_created :: string

record ExistsResponse = Response +
  stat :: Stat

record GetResponse = Response +
  data :: string
  stat :: Stat

record SetResponse = Response +
  stat :: Stat

record ListResponse = Response +
  names :: "string list"
  stat :: Stat

record MultiResponse = Response +
  responses :: "Response list"

text \<open>
  Exceptions. \<^verbatim>\<open>KeeperException\<close> (an alias of \<^verbatim>\<open>Coordination::Exception\<close>) has three
  constructors in use here: (message, code), (code) and (code, path).
  \<^verbatim>\<open>KeeperMultiException\<close> derives from it and carries the requests, the responses, the index
  of the failed operation and the text added with \<^verbatim>\<open>addMessage\<close>. \<^verbatim>\<open>DB::Exception\<close> with a
  \<^verbatim>\<open>DB::ErrorCodes\<close> code is not a coordination exception. \<open>Foreign_exception\<close> is any other
  exception that an external collaborator may raise. \<open>Out_of_range_read\<close> marks the read of
  \<^verbatim>\<open>requests[failed_op_index]\<close> past the end of the vector, which C++ leaves undefined.
\<close>

datatype exception =
    KeeperException_message string Error
  | KeeperException_code Error
  | KeeperException_path Error string
  | KeeperMultiException Error "Request list" "Response list" nat string
  | DB_Exception string DB_ErrorCode
  | Foreign_exception string
  | Out_of_range_read

text \<open>The coordination exceptions are the ones \<^verbatim>\<open>catch (const Coordination::Exception &)\<close> catches;
  \<open>code_of\<close> is the field \<^verbatim>\<open>code\<close> of such an exception.\<close>

fun code_of :: "exception \<Rightarrow> Error option" where
  "code_of (KeeperException_message msg c) = Some c"
| "code_of (KeeperException_code c) = Some c"
| "code_of (KeeperException_path c path) = Some c"
| "code_of (KeeperMultiException c reqs resps i msg) = Some c"
| "code_of (DB_Exception msg c) = None"
| "code_of (Foreign_exception msg) = None"
| "code_of Out_of_range_read = None"

definition is_coordination_exception :: "exception \<Rightarrow> bool" where
  "is_coordination_exception e = (code_of e \<noteq> None)"

text \<open>\<^verbatim>\<open>static void check(Coordination::Error code, const std::string & path)\<close>\<close>

definition check :: "Error \<Rightarrow> string \<Rightarrow> exception + unit" where
  "check code path = (if code \<noteq> ZOK then Inl (KeeperException_path code path) else Inr ())"

section \<open>Structured failure of a multi-operation transaction\<close>

text \<open>\<^verbatim>\<open>std::to_string\<close> on a \<^verbatim>\<open>size_t\<close>: the decimal digits.\<close>

definition digit :: "nat \<Rightarrow> char" where
  "digit d = ''0123456789'' ! (d mod 10)"

function to_string :: "nat \<Rightarrow> string" where
  "to_string n = (if n < 10 then [digit n] else to_string (n div 10) @ [digit n])"
  by pat_completeness auto
termination
  by (relation "measure id") auto

text \<open>The loop of \<^verbatim>\<open>getFailedOpIndex\<close>: the first index, from \<open>index\<close> on, of a response whose
  code is not \<open>ZOK\<close>.\<close>

fun first_failed :: "nat \<Rightarrow> Response list \<Rightarrow> nat option" where
  "first_failed index [] = None"
| "first_failed index (r # rs) =
     (if error r \<noteq> ZOK then Some index else first_failed (Suc index) rs)"

text \<open>Modelled from the spec: \<^verbatim>\<open>Coordination::errorMessage\<close> is defined in IKeeper.cpp;
  the spec gives no wording, so the text of a code is a parameter.\<close>

definition getFailedOpIndex ::
  "(Error \<Rightarrow> string) \<Rightarrow> Error \<Rightarrow> Response list \<Rightarrow> exception + nat" where
  "getFailedOpIndex errorMessage exception_code resps =
     (if resps = [] then
        Inl (DB_Exception ''Responses for multi transaction is empty'' LOGICAL_ERROR)
      else case first_failed 0 resps of
        Some index \<Rightarrow> Inr index
      | None \<Rightarrow>
          if \<not> isUserError exception_code then
            Inl (DB_Exception
              (''There are no failed OPs because '' @ [CHR 0x27] @ errorMessage exception_code
                @ [CHR 0x27] @ '' is not valid response code for that'') LOGICAL_ERROR)
          else Inl (DB_Exception ''There is no failed OpResult'' LOGICAL_ERROR))"

text \<open>The constructor of \<^verbatim>\<open>KeeperMultiException\<close>: the value is the exception object built, or
  the exception that escapes from the constructor.\<close>

definition KeeperMultiException_ctor ::
  "(Error \<Rightarrow> string) \<Rightarrow> Error \<Rightarrow> Request list \<Rightarrow> Response list \<Rightarrow> exception" where
  "KeeperMultiException_ctor errorMessage exception_code requests resps =
     (case getFailedOpIndex errorMessage exception_code resps of
        Inl e \<Rightarrow> e
      | Inr failed_op_index \<Rightarrow>
          if failed_op_index < length requests then
            KeeperMultiException exception_code requests resps failed_op_index
              (''Op #'' @ to_string failed_op_index @ '', path: ''
                 @ getPath (requests ! failed_op_index))
          else Out_of_range_read)"

text \<open>\<^verbatim>\<open>KeeperMultiException::check\<close>\<close>

definition KeeperMultiException_check ::
  "(Error \<Rightarrow> string) \<Rightarrow> Error \<Rightarrow> Request list \<Rightarrow> Response list \<Rightarrow> exception + unit" where
  "KeeperMultiException_check errorMessage exception_code requests resps =
     (if exception_code = ZOK then Inr ()
      else if isUserError exception_code then
        Inl (KeeperMultiException_ctor errorMessage exception_code requests resps)
      else Inl (KeeperException_code exception_code))"


section \<open>The protocol engine and the synchronous bridge\<close>

text \<open>
  What a \<^verbatim>\<open>std::future\<close> of a response turns out to be: the value is set within
  \<^verbatim>\<open>operation_timeout_ms\<close> of the submission (\<open>InTime\<close>), it is set later (\<open>Late\<close>), or
  it is never set (\<open>Never\<close>). \<^verbatim>\<open>wait_for(operation_timeout_ms)\<close> is ready in the first case
  only; \<^verbatim>\<open>get()\<close> returns the value in the first two and blocks for ever in the third.
\<close>

datatype 'r completion = InTime 'r | Late 'r | Never

fun wait_for :: "'r completion \<Rightarrow> 'r option" where
  "wait_for (InTime r) = Some r"
| "wait_for (Late r) = None"
| "wait_for Never = None"

fun future_get :: "'r completion \<Rightarrow> 'r option" where
  "future_get (InTime r) = Some r"
| "future_get (Late r) = Some r"
| "future_get Never = None"

datatype OpNum = OpNum_Create | OpNum_Remove | OpNum_Exists | OpNum_Get | OpNum_Set
  | OpNum_List | OpNum_Multi

text \<open>The text handed to \<^verbatim>\<open>finalize\<close>: \<^verbatim>\<open>"Operation timeout on {} {}"\<close> with the name of the
  operation and the path, or any other text.\<close>

datatype reason = Operation_timeout OpNum string | Reason string

text \<open>A watch is an \<^verbatim>\<open>EventPtr\<close> (possibly null) or a \<^verbatim>\<open>WatchCallback\<close> (possibly empty);
  events and callbacks are identified by a number.\<close>

type_synonym EventPtr = "nat option"

datatype WatchCallback = Empty_callback | Event_setter nat | Callback nat

fun callbackForEvent :: "EventPtr \<Rightarrow> WatchCallback" where
  "callbackForEvent None = Empty_callback"
| "callbackForEvent (Some w) = Event_setter w"

text \<open>
  The protocol engine (\<^verbatim>\<open>impl\<close>), over its own state \<open>'s\<close>. Submitting a request either
  raises, or gives the future that the completion callback fulfils; the engine state after
  the call is returned in both cases.
\<close>

record 's engine =
  create_op :: "string \<Rightarrow> string \<Rightarrow> bool \<Rightarrow> bool \<Rightarrow> 's
                  \<Rightarrow> (exception + CreateResponse completion) \<times> 's"
  remove_op :: "string \<Rightarrow> int32 \<Rightarrow> 's \<Rightarrow> (exception + Response completion) \<times> 's"
  exists_op :: "string \<Rightarrow> WatchCallback \<Rightarrow> 's \<Rightarrow> (exception + ExistsResponse completion) \<times> 's"
  get_op :: "string \<Rightarrow> WatchCallback \<Rightarrow> 's \<Rightarrow> (exception + GetResponse completion) \<times> 's"
  set_op :: "string \<Rightarrow> string \<Rightarrow> int32 \<Rightarrow> 's \<Rightarrow> (exception + SetResponse completion) \<times> 's"
  list_op :: "string \<Rightarrow> WatchCallback \<Rightarrow> 's \<Rightarrow> (exception + ListResponse completion) \<times> 's"
  multi_op :: "Request list \<Rightarrow> 's \<Rightarrow> (exception + MultiResponse completion) \<times> 's"
  finalize_op :: "reason \<Rightarrow> 's \<Rightarrow> 's"

text \<open>
  The \<^verbatim>\<open>...Impl\<close> functions. Reference and pointer parameters that the function writes are
  passed in and returned: \<open>res\<close> is the caller's variable, \<open>stat_ptr\<close> is \<open>None\<close> for a null
  pointer and \<open>Some\<close> of the pointee otherwise.
\<close>

definition getChildrenImpl ::
  "'s engine \<Rightarrow> string \<Rightarrow> string list \<Rightarrow> Stat option \<Rightarrow> WatchCallback \<Rightarrow> 's
     \<Rightarrow> (exception + Error \<times> string list \<times> Stat option) \<times> 's" where
  "getChildrenImpl eng path res stat_ptr watch_callback s =
     (case list_op eng path watch_callback s of
        (Inl e, s') \<Rightarrow> (Inl e, s')
      | (Inr future_result, s') \<Rightarrow>
          (case wait_for future_result of
             None \<Rightarrow> (Inr (ZOPERATIONTIMEOUT, res, stat_ptr),
                       finalize_op eng (Operation_timeout OpNum_List path) s')
           | Some response \<Rightarrow>
               if error response = ZOK
               then (Inr (ZOK, names response,
                          map_option (\<lambda>old. ListResponse.stat response) stat_ptr), s')
               else (Inr (error response, res, stat_ptr), s')))"

definition createImpl ::
  "'s engine \<Rightarrow> string \<Rightarrow> string \<Rightarrow> int32 \<Rightarrow> string \<Rightarrow> 's
     \<Rightarrow> (exception + Error \<times> string) \<times> 's" where
  "createImpl eng path content mode path_created_var s =
     (case create_op eng path content (mode AND 1 \<noteq> 0) (mode AND 2 \<noteq> 0) s of
        (Inl e, s') \<Rightarrow> (Inl e, s')
      | (Inr future_result, s') \<Rightarrow>
          (case wait_for future_result of
             None \<Rightarrow> (Inr (ZOPERATIONTIMEOUT, path_created_var),
                       finalize_op eng (Operation_timeout OpNum_Create path) s')
           | Some response \<Rightarrow>
               if error response = ZOK then (Inr (ZOK, path_created response), s')
               else (Inr (error response, path_created_var), s')))"

definition removeImpl ::
  "'s engine \<Rightarrow> string \<Rightarrow> int32 \<Rightarrow> 's \<Rightarrow> (exception + Error) \<times> 's" where
  "removeImpl eng path ver s =
     (case remove_op eng path ver s of
        (Inl e, s') \<Rightarrow> (Inl e, s')
      | (Inr future_result, s') \<Rightarrow>
          (case wait_for future_result of
             None \<Rightarrow> (Inr ZOPERATIONTIMEOUT,
                       finalize_op eng (Operation_timeout OpNum_Remove path) s')
           | Some response \<Rightarrow> (Inr (error response), s')))"

definition existsImpl ::
  "'s engine \<Rightarrow> string \<Rightarrow> Stat option \<Rightarrow> WatchCallback \<Rightarrow> 's
     \<Rightarrow> (exception + Error \<times> Stat option) \<times> 's" where
  "existsImpl eng path stat_ptr watch_callback s =
     (case exists_op eng path watch_callback s of
        (Inl e, s') \<Rightarrow> (Inl e, s')
      | (Inr future_result, s') \<Rightarrow>
          (case wait_for future_result of
             None \<Rightarrow> (Inr (ZOPERATIONTIMEOUT, stat_ptr),
                       finalize_op eng (Operation_timeout OpNum_Exists path) s')
           | Some response \<Rightarrow>
               if error response = ZOK
               then (Inr (ZOK, map_option (\<lambda>old. ExistsResponse.stat response) stat_ptr), s')
               else (Inr (error response, stat_ptr), s')))"

definition getImpl ::
  "'s engine \<Rightarrow> string \<Rightarrow> string \<Rightarrow> Stat option \<Rightarrow> WatchCallback \<Rightarrow> 's
     \<Rightarrow> (exception + Error \<times> string \<times> Stat option) \<times> 's" where
  "getImpl eng path res stat_ptr watch_callback s =
     (case get_op eng path watch_callback s of
        (Inl e, s') \<Rightarrow> (Inl e, s')
      | (Inr future_result, s') \<Rightarrow>
          (case wait_for future_result of
             None \<Rightarrow> (Inr (ZOPERATIONTIMEOUT, res, stat_ptr),
                       finalize_op eng (Operation_timeout OpNum_Get path) s')
           | Some response \<Rightarrow>
               if error response = ZOK
               then (Inr (ZOK, data response,
                          map_option (\<lambda>old. GetResponse.stat response) stat_ptr), s')
               else (Inr (error response, res, stat_ptr), s')))"

definition setImpl ::
  "'s engine \<Rightarrow> string \<Rightarrow> string \<Rightarrow> int32 \<Rightarrow> Stat option \<Rightarrow> 's
     \<Rightarrow> (exception + Error \<times> Stat option) \<times> 's" where
  "setImpl eng path content ver stat_ptr s =
     (case set_op eng path content ver s of
        (Inl e, s') \<Rightarrow> (Inl e, s')
      | (Inr future_result, s') \<Rightarrow>
          (case wait_for future_result of
             None \<Rightarrow> (Inr (ZOPERATIONTIMEOUT, stat_ptr),
                       finalize_op eng (Operation_timeout OpNum_Set path) s')
           | Some response \<Rightarrow>
               if error response = ZOK
               then (Inr (ZOK, map_option (\<lambda>old. SetResponse.stat response) stat_ptr), s')
               else (Inr (error response, stat_ptr), s')))"

text \<open>\<^verbatim>\<open>multiImpl\<close>: an empty request list returns before anything is submitted, and leaves
  the caller's \<open>resps\<close> as it is.\<close>

definition multiImpl ::
  "'s engine \<Rightarrow> Request list \<Rightarrow> Response list \<Rightarrow> 's
     \<Rightarrow> (exception + Error \<times> Response list) \<times> 's" where
  "multiImpl eng requests resps s =
     (if requests = [] then (Inr (ZOK, resps), s)
      else case multi_op eng requests s of
        (Inl e, s') \<Rightarrow> (Inl e, s')
      | (Inr future_result, s') \<Rightarrow>
          (case wait_for future_result of
             None \<Rightarrow> (Inr (ZOPERATIONTIMEOUT, resps),
                       finalize_op eng (Operation_timeout OpNum_Multi (getPath (requests ! 0))) s')
           | Some response \<Rightarrow> (Inr (error response, responses response), s')))"


section \<open>The per-operation wrappers\<close>

text \<open>The "try" variants return the non-fatal codes of their operation and raise
  \<^verbatim>\<open>KeeperException(code, path)\<close> on every other code but \<open>ZOK\<close>.\<close>

definition tryGetChildrenWatch ::
  "'s engine \<Rightarrow> string \<Rightarrow> string list \<Rightarrow> Stat option \<Rightarrow> WatchCallback \<Rightarrow> 's
     \<Rightarrow> (exception + Error \<times> string list \<times> Stat option) \<times> 's" where
  "tryGetChildrenWatch eng path res stat_ptr watch_callback s =
     (case getChildrenImpl eng path res stat_ptr watch_callback s of
        (Inl e, s') \<Rightarrow> (Inl e, s')
      | (Inr (code, res', stat_ptr'), s') \<Rightarrow>
          if \<not> (code = ZOK \<or> code = ZNONODE) then (Inl (KeeperException_path code path), s')
          else (Inr (code, res', stat_ptr'), s'))"

definition tryGetChildren ::
  "'s engine \<Rightarrow> string \<Rightarrow> string list \<Rightarrow> Stat option \<Rightarrow> EventPtr \<Rightarrow> 's
     \<Rightarrow> (exception + Error \<times> string list \<times> Stat option) \<times> 's" where
  "tryGetChildren eng path res stat_ptr watch s =
     (case getChildrenImpl eng path res stat_ptr (callbackForEvent watch) s of
        (Inl e, s') \<Rightarrow> (Inl e, s')
      | (Inr (code, res', stat_ptr'), s') \<Rightarrow>
          if \<not> (code = ZOK \<or> code = ZNONODE) then (Inl (KeeperException_path code path), s')
          else (Inr (code, res', stat_ptr'), s'))"


definition tryCreate ::
  "'s engine \<Rightarrow> string \<Rightarrow> string \<Rightarrow> int32 \<Rightarrow> string \<Rightarrow> 's
     \<Rightarrow> (exception + Error \<times> string) \<times> 's" where
  "tryCreate eng path content mode path_created_var s =
     (case createImpl eng path content mode path_created_var s of
        (Inl e, s') \<Rightarrow> (Inl e, s')
      | (Inr (code, created), s') \<Rightarrow>
          if \<not> (code = ZOK \<or> code = ZNONODE \<or> code = ZNODEEXISTS
                 \<or> code = ZNOCHILDRENFOREPHEMERALS)
          then (Inl (KeeperException_path code path), s')
          else (Inr (code, created), s'))"

definition create ::
  "'s engine \<Rightarrow> string \<Rightarrow> string \<Rightarrow> int32 \<Rightarrow> 's \<Rightarrow> (exception + string) \<times> 's" where
  "create eng path content mode s =
     (case tryCreate eng path content mode [] s of
        (Inl e, s') \<Rightarrow> (Inl e, s')
      | (Inr (code, created), s') \<Rightarrow>
          (case check code path of
             Inl e \<Rightarrow> (Inl e, s')
           | Inr u \<Rightarrow> (Inr created, s')))"

definition tryRemove ::
  "'s engine \<Rightarrow> string \<Rightarrow> int32 \<Rightarrow> 's \<Rightarrow> (exception + Error) \<times> 's" where
  "tryRemove eng path ver s =
     (case removeImpl eng path ver s of
        (Inl e, s') \<Rightarrow> (Inl e, s')
      | (Inr code, s') \<Rightarrow>
          if \<not> (code = ZOK \<or> code = ZNONODE \<or> code = ZBADVERSION \<or> code = ZNOTEMPTY)
          then (Inl (KeeperException_path code path), s')
          else (Inr code, s'))"

definition remove ::
  "'s engine \<Rightarrow> string \<Rightarrow> int32 \<Rightarrow> 's \<Rightarrow> (exception + unit) \<times> 's" where
  "remove eng path ver s =
     (case tryRemove eng path ver s of
        (Inl e, s') \<Rightarrow> (Inl e, s')
      | (Inr code, s') \<Rightarrow> (check code path, s'))"

text \<open>\<^verbatim>\<open>existsWatch\<close> and \<^verbatim>\<open>exists\<close> return whether the code is not \<open>ZNONODE\<close>.\<close>

definition existsWatch ::
  "'s engine \<Rightarrow> string \<Rightarrow> Stat option \<Rightarrow> WatchCallback \<Rightarrow> 's
     \<Rightarrow> (exception + bool \<times> Stat option) \<times> 's" where
  "existsWatch eng path stat_ptr watch_callback s =
     (case existsImpl eng path stat_ptr watch_callback s of
        (Inl e, s') \<Rightarrow> (Inl e, s')
      | (Inr (code, stat_ptr'), s') \<Rightarrow>
          if \<not> (code = ZOK \<or> code = ZNONODE) then (Inl (KeeperException_path code path), s')
          else (Inr (code \<noteq> ZNONODE, stat_ptr'), s'))"

definition exists ::
  "'s engine \<Rightarrow> string \<Rightarrow> Stat option \<Rightarrow> EventPtr \<Rightarrow> 's
     \<Rightarrow> (exception + bool \<times> Stat option) \<times> 's" where
  "exists eng path stat_ptr watch s =
     existsWatch eng path stat_ptr (callbackForEvent watch) s"

text \<open>\<^verbatim>\<open>tryGetWatch\<close> and \<^verbatim>\<open>tryGet\<close> return whether the code is \<open>ZOK\<close>, and store the code
  through \<open>return_code\<close> when that pointer is not null.\<close>

definition tryGetWatch ::
  "'s engine \<Rightarrow> string \<Rightarrow> string \<Rightarrow> Stat option \<Rightarrow> WatchCallback \<Rightarrow> Error option \<Rightarrow> 's
     \<Rightarrow> (exception + bool \<times> string \<times> Stat option \<times> Error option) \<times> 's" where
  "tryGetWatch eng path res stat_ptr watch_callback return_code s =
     (case getImpl eng path res stat_ptr watch_callback s of
        (Inl e, s') \<Rightarrow> (Inl e, s')
      | (Inr (code, res', stat_ptr'), s') \<Rightarrow>
          if \<not> (code = ZOK \<or> code = ZNONODE) then (Inl (KeeperException_path code path), s')
          else (Inr (code = ZOK, res', stat_ptr', map_option (\<lambda>old. code) return_code), s'))"

definition tryGet ::
  "'s engine \<Rightarrow> string \<Rightarrow> string \<Rightarrow> Stat option \<Rightarrow> EventPtr \<Rightarrow> Error option \<Rightarrow> 's
     \<Rightarrow> (exception + bool \<times> string \<times> Stat option \<times> Error option) \<times> 's" where
  "tryGet eng path res stat_ptr watch return_code s =
     tryGetWatch eng path res stat_ptr (callbackForEvent watch) return_code s"

definition trySet ::
  "'s engine \<Rightarrow> string \<Rightarrow> string \<Rightarrow> int32 \<Rightarrow> Stat option \<Rightarrow> 's
     \<Rightarrow> (exception + Error \<times> Stat option) \<times> 's" where
  "trySet eng path content ver stat_ptr s =
     (case setImpl eng path content ver stat_ptr s of
        (Inl e, s') \<Rightarrow> (Inl e, s')
      | (Inr (code, stat_ptr'), s') \<Rightarrow>
          if \<not> (code = ZOK \<or> code = ZNONODE \<or> code = ZBADVERSION)
          then (Inl (KeeperException_path code path), s')
          else (Inr (code, stat_ptr'), s'))"

section \<open>The transaction wrapper\<close>

text \<open>\<^verbatim>\<open>multi\<close> starts from an empty response list of its own; \<^verbatim>\<open>tryMulti\<close> and
  \<^verbatim>\<open>tryMultiNoThrow\<close> write into the caller's list.\<close>

definition multi ::
  "(Error \<Rightarrow> string) \<Rightarrow> 's engine \<Rightarrow> Request list \<Rightarrow> 's
     \<Rightarrow> (exception + Response list) \<times> 's" where
  "multi errorMessage eng requests s =
     (case multiImpl eng requests [] s of
        (Inl e, s') \<Rightarrow> (Inl e, s')
      | (Inr (code, resps), s') \<Rightarrow>
          (case KeeperMultiException_check errorMessage code requests resps of
             Inl e \<Rightarrow> (Inl e, s')
           | Inr u \<Rightarrow> (Inr resps, s')))"

definition tryMulti ::
  "'s engine \<Rightarrow> Request list \<Rightarrow> Response list \<Rightarrow> 's
     \<Rightarrow> (exception + Error \<times> Response list) \<times> 's" where
  "tryMulti eng requests resps s =
     (case multiImpl eng requests resps s of
        (Inl e, s') \<Rightarrow> (Inl e, s')
      | (Inr (code, resps'), s') \<Rightarrow>
          if code \<noteq> ZOK \<and> \<not> isUserError code then (Inl (KeeperException_code code), s')
          else (Inr (code, resps'), s'))"

text \<open>\<^verbatim>\<open>tryMultiNoThrow\<close>: a coordination exception that escapes from \<^verbatim>\<open>multiImpl\<close> is caught
  and its code returned; the caller's list is then as \<^verbatim>\<open>multiImpl\<close> found it. Any other
  exception goes through.\<close>

definition tryMultiNoThrow ::
  "'s engine \<Rightarrow> Request list \<Rightarrow> Response list \<Rightarrow> 's
     \<Rightarrow> (exception + Error \<times> Response list) \<times> 's" where
  "tryMultiNoThrow eng requests resps s =
     (case multiImpl eng requests resps s of
        (Inl e, s') \<Rightarrow>
          (case code_of e of
             Some c \<Rightarrow> (Inr (c, resps), s')
           | None \<Rightarrow> (Inl e, s'))
      | (Inr r, s') \<Rightarrow> (Inr r, s'))"


section \<open>Host selection and session bootstrap\<close>

text \<open>
  Modelled from the spec: the struct \<^verbatim>\<open>ShuffleHost\<close> with \<^verbatim>\<open>randomize\<close> and \<^verbatim>\<open>compare\<close> is
  declared in ZooKeeper.h, outside ZooKeeper.cpp. The spec: a shuffled host is "a configured
  endpoint annotated with a load-balancing priority and a random tie-breaker", and "the
  final order sorts by priority then by the random value"; without a priority function
  there is no preference, so every host keeps the same default priority.
\<close>

record ShuffleHost =
  host :: string
  priority :: int
  random :: nat

definition default_priority :: int where
  "default_priority = 0"

definition ShuffleHost_compare :: "ShuffleHost \<Rightarrow> ShuffleHost \<Rightarrow> bool" where
  "ShuffleHost_compare lhs rhs =
     (priority lhs < priority rhs \<or> (\<not> priority rhs < priority lhs \<and> random lhs < random rhs))"

text \<open>\<^verbatim>\<open>std::sort\<close> with a comparator. The standard leaves the order of equivalent elements
  open; the model takes the order that inserting the elements one by one gives.\<close>

fun insert_sorted :: "('a \<Rightarrow> 'a \<Rightarrow> bool) \<Rightarrow> 'a \<Rightarrow> 'a list \<Rightarrow> 'a list" where
  "insert_sorted cmp x [] = [x]"
| "insert_sorted cmp x (y # ys) =
     (if cmp x y then x # y # ys else y # insert_sorted cmp x ys)"

definition std_sort :: "('a \<Rightarrow> 'a \<Rightarrow> bool) \<Rightarrow> 'a list \<Rightarrow> 'a list" where
  "std_sort cmp xs = foldr (insert_sorted cmp) xs []"

text \<open>
  \<^verbatim>\<open>ZooKeeper::shuffleHosts\<close>. \<open>get_priority\<close> is the function that \<^verbatim>\<open>getPriorityFunc\<close> returns
  (\<open>None\<close> for an empty \<^verbatim>\<open>std::function\<close>), and \<open>draws i\<close> is the value that
  \<^verbatim>\<open>randomize\<close> draws from the random generator for host \<open>i\<close>.
\<close>

definition shuffleHosts ::
  "string list \<Rightarrow> (nat \<Rightarrow> nat) option \<Rightarrow> (nat \<Rightarrow> nat) \<Rightarrow> ShuffleHost list" where
  "shuffleHosts hosts get_priority draws =
     std_sort ShuffleHost_compare
       (map (\<lambda>i. \<lparr>host = hosts ! i,
                   priority = (case get_priority of
                                 None \<Rightarrow> default_priority
                               | Some f \<Rightarrow> int (f i)),
                   random = draws i\<rparr>)
            [0..<length hosts])"

text \<open>
  What constructing a \<^verbatim>\<open>Poco::Net::SocketAddress\<close> from a host string does: it gives an
  address, or raises \<^verbatim>\<open>HostNotFoundException\<close>, or raises another \<^verbatim>\<open>DNSException\<close>, or
  raises an exception that the loop of \<^verbatim>\<open>init\<close> does not catch.
\<close>

datatype resolution =
    Resolved string
  | HostNotFoundException string
  | DNSException string
  | Uncaught exception

type_synonym Node = "string \<times> bool"

definition startsWith :: "string \<Rightarrow> string \<Rightarrow> bool" where
  "startsWith s start = (take (length start) s = start)"

text \<open>The loop of \<^verbatim>\<open>init\<close> over the shuffled hosts, with its variables \<open>nodes\<close> and
  \<open>dns_error\<close>.\<close>

fun resolve_hosts ::
  "(string \<Rightarrow> resolution) \<Rightarrow> ShuffleHost list \<Rightarrow> Node list \<Rightarrow> bool
     \<Rightarrow> exception + Node list \<times> bool" where
  "resolve_hosts resolve [] nodes dns_error = Inr (nodes, dns_error)"
| "resolve_hosts resolve (h # hs) nodes dns_error =
     (let secure = startsWith (host h) ''secure://'';
          host_string = (if secure then drop (length ''secure://'') (host h) else host h)
      in case resolve host_string of
           Resolved address \<Rightarrow> resolve_hosts resolve hs (nodes @ [(address, secure)]) dns_error
         | HostNotFoundException msg \<Rightarrow> resolve_hosts resolve hs nodes dns_error
         | DNSException msg \<Rightarrow> resolve_hosts resolve hs nodes True
         | Uncaught e \<Rightarrow> Inl e)"

text \<open>The engine that \<^verbatim>\<open>init\<close> goes on to construct.\<close>

datatype implementation = ZooKeeper_impl "Node list" | TestKeeper_impl

text \<open>
  The check of the root at the end of \<^verbatim>\<open>init\<close>. \<open>root_exists\<close> is what the engine makes of
  the request \<^verbatim>\<open>exists("/")\<close>; the callback of \<^verbatim>\<open>asyncExists\<close> puts an exception into the
  future for every code but \<open>ZOK\<close> and \<open>ZNONODE\<close>, and \<^verbatim>\<open>future.get()\<close> raises it.
\<close>

definition check_root ::
  "string \<Rightarrow> ExistsResponse completion \<Rightarrow> exception + unit" where
  "check_root chroot root_exists =
     (if chroot \<noteq> [] then
        (case wait_for root_exists of
           None \<Rightarrow> Inl (KeeperException_message ''Cannot check if zookeeper root exists.''
                         ZOPERATIONTIMEOUT)
         | Some response \<Rightarrow>
             if error response \<noteq> ZOK \<and> error response \<noteq> ZNONODE
             then Inl (KeeperException_message ''/'' (error response))
             else if \<not> (error response = ZOK \<or> error response = ZNONODE)
             then Inl (KeeperException_path (error response) ''/'')
             else if error response = ZNONODE
             then Inl (KeeperException_message
                    (''ZooKeeper root doesn't exist. You should create root node '' @ chroot
                       @ '' before start.'') ZNONODE)
             else Inr ())
      else Inr ())"

text \<open>\<^verbatim>\<open>ZooKeeper::init\<close>, up to the construction of the engine, and the check of the root
  after it.\<close>

definition init ::
  "string \<Rightarrow> string list \<Rightarrow> string \<Rightarrow> (nat \<Rightarrow> nat) option \<Rightarrow> (nat \<Rightarrow> nat)
     \<Rightarrow> (string \<Rightarrow> resolution) \<Rightarrow> ExistsResponse completion \<Rightarrow> exception + implementation" where
  "init implementation_name hosts chroot get_priority draws resolve root_exists =
     (if implementation_name = ''zookeeper'' then
        if hosts = [] then
          Inl (KeeperException_message ''No hosts passed to ZooKeeper constructor.'' ZBADARGUMENTS)
        else
          (case resolve_hosts resolve (shuffleHosts hosts get_priority draws) [] False of
             Inl e \<Rightarrow> Inl e
           | Inr (nodes, dns_error) \<Rightarrow>
               if nodes = [] then
                 if dns_error then
                   Inl (KeeperException_message
                     ''Cannot resolve any of provided ZooKeeper hosts due to DNS error''
                     ZCONNECTIONLOSS)
                 else
                   Inl (KeeperException_message ''Cannot use any of provided ZooKeeper nodes''
                     ZBADARGUMENTS)
               else
                 (case check_root chroot root_exists of
                    Inl e \<Rightarrow> Inl e
                  | Inr u \<Rightarrow> Inr (ZooKeeper_impl nodes)))
      else if implementation_name = ''testkeeper'' then
        (case check_root chroot root_exists of
           Inl e \<Rightarrow> Inl e
         | Inr u \<Rightarrow> Inr TestKeeper_impl)
      else
        Inl (DB_Exception (''Unknown implementation of coordination service: ''
               @ implementation_name) NOT_IMPLEMENTED))"

section \<open>The disappearance waiter\<close>

text \<open>
  \<^verbatim>\<open>WaitForDisappearState\<close>: the code and the event type (atomic integers, initially zero) and
  the \<^verbatim>\<open>Poco::Event\<close>. The code zero is \<open>ZOK\<close>; the event type zero is no event type of the
  protocol and is written \<open>No_event\<close>; \<open>DELETED\<close> is \<^verbatim>\<open>Coordination::DELETED\<close>.
\<close>

datatype event_type = No_event | DELETED | Other_event nat

record WaitForDisappearState =
  state_code :: Error
  state_event_type :: event_type
  state_event :: bool

definition initial_state :: WaitForDisappearState where
  "initial_state = \<lparr>state_code = ZOK, state_event_type = No_event, state_event = False\<rparr>"

text \<open>The two lambdas of \<^verbatim>\<open>waitForDisappear\<close>, as the engine's threads run them: \<^verbatim>\<open>callback\<close>
  on the completion of the read, \<^verbatim>\<open>watch\<close> when the watch fires.\<close>

definition waitForDisappear_callback ::
  "Error \<Rightarrow> WaitForDisappearState \<Rightarrow> WaitForDisappearState" where
  "waitForDisappear_callback response_error st =
     (let st1 = st\<lparr>state_code := response_error\<rparr>
      in if state_code st1 \<noteq> ZOK then st1\<lparr>state_event := True\<rparr> else st1)"

definition waitForDisappear_watch ::
  "Error \<Rightarrow> event_type \<Rightarrow> WaitForDisappearState \<Rightarrow> WaitForDisappearState" where
  "waitForDisappear_watch response_error response_type st =
     (if state_code st = ZOK then
        (let st1 = st\<lparr>state_code := response_error\<rparr>;
             st2 = (if state_code st1 = ZOK then st1\<lparr>state_event_type := response_type\<rparr>
                    else st1)
         in st2\<lparr>state_event := True\<rparr>)
      else st)"

text \<open>
  One turn of the loop, as the waiting thread meets it: \<^verbatim>\<open>impl->get\<close> may raise; then the
  engine delivers completions and watch events, in some order, until the event is set or
  the wait of one second is over; \<open>condition_returns\<close> is what the caller's condition
  returns if the loop asks it at the end of this turn.
\<close>

datatype delivery = Get_completed Error | Watch_fired Error event_type

fun deliver :: "WaitForDisappearState \<Rightarrow> delivery \<Rightarrow> WaitForDisappearState" where
  "deliver st (Get_completed response_error) = waitForDisappear_callback response_error st"
| "deliver st (Watch_fired response_error response_type) =
     waitForDisappear_watch response_error response_type st"

record turn =
  get_raises :: "exception option"
  deliveries :: "delivery list"
  condition_returns :: bool

text \<open>
  \<^verbatim>\<open>ZooKeeper::waitForDisappear\<close>. \<open>has_condition\<close> tells whether the caller passed a
  condition. \<^verbatim>\<open>tryWait(1000)\<close> succeeds when the event is set and resets it. \<^verbatim>\<open>continue\<close> in
  a do-while goes to the test of the loop, \<^verbatim>\<open>!condition || !condition()\<close>. The result is
  \<open>None\<close> when the function is still waiting after the turns given.
\<close>

fun wait_loop ::
  "string \<Rightarrow> bool \<Rightarrow> WaitForDisappearState \<Rightarrow> turn list \<Rightarrow> (exception + bool) option" where
  "wait_loop path has_condition st [] = None"
| "wait_loop path has_condition st (t # ts) =
     (case get_raises t of
        Some e \<Rightarrow> Some (Inl e)
      | None \<Rightarrow>
          (let st1 = foldl deliver st (deliveries t) in
           if \<not> state_event st1 then
             (if \<not> has_condition \<or> \<not> condition_returns t
              then wait_loop path has_condition st1 ts else Some (Inr False))
           else
             (let st2 = st1\<lparr>state_event := False\<rparr> in
              if state_code st2 = ZNONODE then Some (Inr True)
              else if state_code st2 \<noteq> ZOK
              then Some (Inl (KeeperException_path (state_code st2) path))
              else if state_event_type st2 = DELETED then Some (Inr True)
              else if \<not> has_condition \<or> \<not> condition_returns t
              then wait_loop path has_condition st2 ts else Some (Inr False))))"

definition waitForDisappear :: "string \<Rightarrow> bool \<Rightarrow> turn list \<Rightarrow> (exception + bool) option" where
  "waitForDisappear path has_condition turns = wait_loop path has_condition initial_state turns"

section \<open>The recursive deletion engine\<close>

text \<open>\<^verbatim>\<open>fs::path(path) / child\<close> on a POSIX system: an absolute right operand replaces the
  left one; otherwise a separator is put between the two unless the left operand is empty
  or ends with one.\<close>

definition path_join :: "string \<Rightarrow> string \<Rightarrow> string" where
  "path_join path child =
     (if child \<noteq> [] \<and> hd child = CHR ''/'' then child
      else if path = [] \<or> last path = CHR ''/'' then path @ child
      else path @ ''/'' @ child)"

definition makeRemoveRequest :: "string \<Rightarrow> int32 \<Rightarrow> Request" where
  "makeRemoveRequest path ver = RemoveRequest path ver"

definition asyncTryRemoveNoThrow ::
  "'s engine \<Rightarrow> string \<Rightarrow> int32 \<Rightarrow> 's \<Rightarrow> (exception + Response completion) \<times> 's" where
  "asyncTryRemoveNoThrow eng path ver s = remove_op eng path ver s"

text \<open>
  Modelled from the spec: the default arguments are part of the declarations in ZooKeeper.h,
  outside ZooKeeper.cpp. The spec calls the keep node and the "probably flat" shortcut
  optional, so a call that passes the path only asks for neither; \<^verbatim>\<open>tryRemove(path)\<close>
  removes any version (\<open>-1\<close>).
\<close>

definition default_probably_flat :: bool where
  "default_probably_flat = False"

definition default_keep_child_node :: string where
  "default_keep_child_node = []"

definition default_version :: int32 where
  "default_version = - 1"

text \<open>
  The recursion of the two deletion functions is on the depth of the tree, which the client
  does not know: the functions take a bound \<open>depth\<close> on the nesting of the calls and give
  \<open>None\<close> when it is used up, and the loops take the recursive call as the parameter
  \<open>rec\<close>. \<open>None\<close> is also the result when a \<^verbatim>\<open>get()\<close> on a future never returns. The
  batch size \<^verbatim>\<open>MULTI_BATCH_SIZE\<close> is a constant of ZooKeeper.h and a parameter here.
\<close>


text \<open>The \<^verbatim>\<open>for\<close> loop of \<^verbatim>\<open>tryRemoveChildrenRecursive\<close>, which also fills \<open>batch\<close>.\<close>

fun try_remove_batch ::
  "(string \<Rightarrow> 's \<Rightarrow> ((exception + bool) \<times> 's) option) \<Rightarrow> string \<Rightarrow> bool \<Rightarrow> string \<Rightarrow> nat
     \<Rightarrow> string list \<Rightarrow> Request list \<Rightarrow> string list \<Rightarrow> 's
     \<Rightarrow> ((exception + string list \<times> Request list \<times> string list) \<times> 's) option" where
  "try_remove_batch rec path probably_flat keep_child_node 0 children ops batch s =
     Some (Inr (children, ops, batch), s)"
| "try_remove_batch rec path probably_flat keep_child_node (Suc n) children ops batch s =
     (if children = [] then Some (Inr (children, ops, batch), s)
      else if \<not> probably_flat then
        (case rec (path_join path (last children)) s of
           None \<Rightarrow> None
         | Some (Inl e, s') \<Rightarrow> Some (Inl e, s')
         | Some (Inr ignored, s') \<Rightarrow>
             if keep_child_node = [] \<or> keep_child_node \<noteq> last children
             then try_remove_batch rec path probably_flat keep_child_node n (butlast children)
                    (ops @ [makeRemoveRequest (path_join path (last children)) (- 1)])
                    (batch @ [path_join path (last children)]) s'
             else try_remove_batch rec path probably_flat keep_child_node n (butlast children)
                    ops batch s')
      else
        if keep_child_node = [] \<or> keep_child_node \<noteq> last children
        then try_remove_batch rec path probably_flat keep_child_node n (butlast children)
               (ops @ [makeRemoveRequest (path_join path (last children)) (- 1)])
               (batch @ [path_join path (last children)]) s
        else try_remove_batch rec path probably_flat keep_child_node n (butlast children)
               ops batch s)"

text \<open>The fallback of \<^verbatim>\<open>tryRemoveChildrenRecursive\<close>: first every removal of the batch is
  submitted, then the futures are awaited one by one.\<close>

fun submit_removes ::
  "'s engine \<Rightarrow> string list \<Rightarrow> Response completion list \<Rightarrow> 's
     \<Rightarrow> (exception + Response completion list) \<times> 's" where
  "submit_removes eng [] futures s = (Inr futures, s)"
| "submit_removes eng (child # rest) futures s =
     (case asyncTryRemoveNoThrow eng child (- 1) s of
        (Inl e, s') \<Rightarrow> (Inl e, s')
      | (Inr future, s') \<Rightarrow> submit_removes eng rest (futures @ [future]) s')"

fun await_removes ::
  "(string \<Rightarrow> 's \<Rightarrow> ((exception + bool) \<times> 's) option) \<Rightarrow> 's engine \<Rightarrow> bool
     \<Rightarrow> (string \<times> Response completion) list \<Rightarrow> 's \<Rightarrow> ((exception + unit) \<times> 's) option" where
  "await_removes rec eng probably_flat [] s = Some (Inr (), s)"
| "await_removes rec eng probably_flat ((child, future) # rest) s =
     (case future_get future of
        None \<Rightarrow> None
      | Some res \<Rightarrow>
          if error res = ZOK then await_removes rec eng probably_flat rest s
          else if error res = ZNONODE then await_removes rec eng probably_flat rest s
          else if error res = ZNOTEMPTY then
            (if probably_flat then
               (case rec child s of
                  None \<Rightarrow> None
                | Some (Inl e, s1) \<Rightarrow> Some (Inl e, s1)
                | Some (Inr ignored, s1) \<Rightarrow>
                    (case tryRemove eng child default_version s1 of
                       (Inl e, s2) \<Rightarrow> Some (Inl e, s2)
                     | (Inr ignored_code, s2) \<Rightarrow> await_removes rec eng probably_flat rest s2))
             else await_removes rec eng probably_flat rest s)
          else Some (Inl (KeeperException_path (error res) child), s))"





text \<open>
  The \<^verbatim>\<open>while\<close> loop of \<^verbatim>\<open>tryRemoveChildrenRecursive\<close> with its variable
  \<open>removed_as_expected\<close>. The list \<open>codes\<close> is not a variable of the source: it collects the
  code that \<^verbatim>\<open>tryMulti\<close> returned for each batch, so that properties can speak of them.
\<close>

function try_remove_loop ::
  "(string \<Rightarrow> 's \<Rightarrow> ((exception + bool) \<times> 's) option) \<Rightarrow> 's engine \<Rightarrow> nat \<Rightarrow> string \<Rightarrow> bool
     \<Rightarrow> string \<Rightarrow> string list \<Rightarrow> bool \<Rightarrow> Error list \<Rightarrow> 's
     \<Rightarrow> ((exception + bool \<times> Error list) \<times> 's) option" where
  "try_remove_loop rec eng batch_size path probably_flat keep_child_node children
       removed_as_expected codes s =
     (if children = [] then Some (Inr (removed_as_expected, codes), s)
      else if batch_size = 0 then None
      else
        (case try_remove_batch rec path probably_flat keep_child_node batch_size children [] [] s of
           None \<Rightarrow> None
         | Some (Inl e, s1) \<Rightarrow> Some (Inl e, s1)
         | Some (Inr (children', ops, batch), s1) \<Rightarrow>
             (case tryMulti eng ops [] s1 of
                (Inl e, s2) \<Rightarrow> Some (Inl e, s2)
              | (Inr (code, resps), s2) \<Rightarrow>
                  if code = ZOK then
                    try_remove_loop rec eng batch_size path probably_flat keep_child_node
                      children' removed_as_expected (codes @ [code]) s2
                  else
                    (case submit_removes eng batch [] s2 of
                       (Inl e, s3) \<Rightarrow> Some (Inl e, s3)
                     | (Inr futures, s3) \<Rightarrow>
                         (case await_removes rec eng probably_flat (zip batch futures) s3 of
                            None \<Rightarrow> None
                          | Some (Inl e, s4) \<Rightarrow> Some (Inl e, s4)
                          | Some (Inr u, s4) \<Rightarrow>
                              try_remove_loop rec eng batch_size path probably_flat
                                keep_child_node children' False (codes @ [code]) s4)))))"
  by pat_completeness auto
termination
proof -
  have shorter: "children' = take (length children - n) children"
    if "try_remove_batch rec path probably_flat keep_child_node n children ops batch s
          = Some (Inr (children', ops', batch'), s')"
    for rec :: "string \<Rightarrow> 's \<Rightarrow> ((exception + bool) \<times> 's) option"
      and path probably_flat keep_child_node n children ops batch s children' ops' batch' s'
    using that
  proof (induction n arbitrary: children ops batch s)
    case 0
    then show ?case by simp
  next
    case (Suc n)
    show ?case
    proof (cases "children = []")
      case True
      with Suc.prems show ?thesis by simp
    next
      case False
      from Suc.prems False obtain ops1 batch1 s1 where
        "try_remove_batch rec path probably_flat keep_child_node n (butlast children)
           ops1 batch1 s1 = Some (Inr (children', ops', batch'), s')"
        by (auto split: option.splits sum.splits prod.splits if_splits)
      then have "children' = take (length (butlast children) - n) (butlast children)"
        by (rule Suc.IH)
      then show ?thesis by (simp add: butlast_conv_take)
    qed
  qed
  show ?thesis
    by (relation "measure (\<lambda>(rec, eng, batch_size, path, probably_flat, keep, children, rest).
          length children)")
       (auto dest!: shorter)
qed

declare try_remove_loop.simps [simp del]

text \<open>\<^verbatim>\<open>ZooKeeper::tryRemoveChildrenRecursive\<close>; the recursive calls pass the path only.\<close>

fun tryRemoveChildrenRecursive ::
  "nat \<Rightarrow> 's engine \<Rightarrow> nat \<Rightarrow> string \<Rightarrow> bool \<Rightarrow> string \<Rightarrow> 's
     \<Rightarrow> ((exception + bool) \<times> 's) option" where
  "tryRemoveChildrenRecursive 0 eng batch_size path probably_flat keep_child_node s = None"
| "tryRemoveChildrenRecursive (Suc depth) eng batch_size path probably_flat keep_child_node s =
     (case tryGetChildren eng path [] None None s of
        (Inl e, s') \<Rightarrow> Some (Inl e, s')
      | (Inr (code, children, stat_ptr), s') \<Rightarrow>
          if code \<noteq> ZOK then Some (Inr False, s')
          else
            (case try_remove_loop
                    (\<lambda>child. tryRemoveChildrenRecursive depth eng batch_size child
                               default_probably_flat default_keep_child_node)
                    eng batch_size path probably_flat keep_child_node children True [] s' of
               None \<Rightarrow> None
             | Some (Inl e, s'') \<Rightarrow> Some (Inl e, s'')
             | Some (Inr (removed_as_expected, codes), s'') \<Rightarrow>
                 Some (Inr removed_as_expected, s'')))"

section \<open>A scripted engine\<close>

text \<open>
  A test double of the protocol engine, for running the client on concrete inputs: it
  records every call and answers the calls, in order, from a script. An answer raises at
  submission, or replies (in time or late) with a code, a list of strings (the children of
  a list request; the first string is the data or the created path) and the codes of the
  sub-responses of a multi request. When the script is used up the engine stays silent.
\<close>

datatype call =
    Call_create string string bool bool
  | Call_remove string int32
  | Call_exists string WatchCallback
  | Call_get string WatchCallback
  | Call_set string string int32
  | Call_list string WatchCallback
  | Call_multi "Request list"
  | Call_finalize reason

datatype answer = Raises exception | Replies bool Error "string list" "Error list" | Silent

record script_state =
  script :: "answer list"
  calls :: "call list"

definition submit ::
  "call \<Rightarrow> (Error \<Rightarrow> string list \<Rightarrow> Error list \<Rightarrow> 'r) \<Rightarrow> script_state
     \<Rightarrow> (exception + 'r completion) \<times> script_state" where
  "submit c mk s =
     (case script s of
        [] \<Rightarrow> (Inr Never, s\<lparr>calls := calls s @ [c]\<rparr>)
      | a # rest \<Rightarrow>
          (case a of
             Raises e \<Rightarrow> Inl e
           | Replies in_time code strs subs \<Rightarrow>
               Inr (if in_time then InTime (mk code strs subs) else Late (mk code strs subs))
           | Silent \<Rightarrow> Inr Never,
           s\<lparr>script := rest, calls := calls s @ [c]\<rparr>))"

definition first_string :: "string list \<Rightarrow> string" where
  "first_string strs = (case strs of [] \<Rightarrow> [] | x # xs \<Rightarrow> x)"

definition no_stat :: Stat where
  "no_stat = \<lparr>version = 0, numChildren = 0\<rparr>"

definition script_engine :: "script_state engine" where
  "script_engine =
     \<lparr>create_op = (\<lambda>path content eph seq.
        submit (Call_create path content eph seq)
          (\<lambda>code strs subs. \<lparr>error = code, path_created = first_string strs\<rparr>)),
      remove_op = (\<lambda>path ver.
        submit (Call_remove path ver) (\<lambda>code strs subs. \<lparr>error = code\<rparr>)),
      exists_op = (\<lambda>path w.
        submit (Call_exists path w)
          (\<lambda>code strs subs. \<lparr>error = code, ExistsResponse.stat = no_stat\<rparr>)),
      get_op = (\<lambda>path w.
        submit (Call_get path w)
          (\<lambda>code strs subs.
             \<lparr>error = code, data = first_string strs, GetResponse.stat = no_stat\<rparr>)),
      set_op = (\<lambda>path content ver.
        submit (Call_set path content ver)
          (\<lambda>code strs subs. \<lparr>error = code, SetResponse.stat = no_stat\<rparr>)),
      list_op = (\<lambda>path w.
        submit (Call_list path w)
          (\<lambda>code strs subs. \<lparr>error = code, names = strs, ListResponse.stat = no_stat\<rparr>)),
      multi_op = (\<lambda>requests.
        submit (Call_multi requests)
          (\<lambda>code strs subs. \<lparr>error = code, responses = map (\<lambda>c. \<lparr>error = c\<rparr>) subs\<rparr>)),
      finalize_op = (\<lambda>why s. s\<lparr>calls := calls s @ [Call_finalize why]\<rparr>)\<rparr>"

section \<open>Notions for the properties\<close>


text \<open>The string that the loop of \<^verbatim>\<open>init\<close> resolves for a configured host: the host without
  the marker of the secure transport.\<close>

definition host_string :: "string \<Rightarrow> string" where
  "host_string h = (if startsWith h ''secure://'' then drop (length ''secure://'') h else h)"

text \<open>The nodes that the loop collects when no exception escapes from it.\<close>

definition resolved_nodes :: "(string \<Rightarrow> resolution) \<Rightarrow> ShuffleHost list \<Rightarrow> Node list" where
  "resolved_nodes resolve hs =
     concat (map (\<lambda>h. case resolve (host_string (host h)) of
                         Resolved address \<Rightarrow> [(address, startsWith (host h) ''secure://'')]
                       | HostNotFoundException msg \<Rightarrow> []
                       | DNSException msg \<Rightarrow> []
                       | Uncaught e \<Rightarrow> []) hs)"


section \<open>Properties: the scripted engine\<close>

text \<open>What the scripted engine does with a call, by the head of its script.\<close>

lemma submit_silent:
  "submit c mk \<lparr>script = [], calls = cs\<rparr> = (Inr Never, \<lparr>script = [], calls = cs @ [c]\<rparr>)"
  by (simp add: submit_def)

lemma submit_reply:
  "submit c mk \<lparr>script = Replies True code strs subs # rest, calls = cs\<rparr>
     = (Inr (InTime (mk code strs subs)), \<lparr>script = rest, calls = cs @ [c]\<rparr>)"
  by (simp add: submit_def)

lemma submit_raises:
  "submit c mk \<lparr>script = Raises e # rest, calls = cs\<rparr>
     = (Inl e, \<lparr>script = rest, calls = cs @ [c]\<rparr>)"
  by (simp add: submit_def)

section \<open>Properties: structured transaction failures\<close>

lemma first_failed_at:
  "d < length rs \<Longrightarrow> error (rs ! d) \<noteq> ZOK \<Longrightarrow> (\<forall>j<d. error (rs ! j) = ZOK)
     \<Longrightarrow> first_failed k rs = Some (k + d)"
proof (induction rs arbitrary: k d)
  case Nil
  then show ?case by simp
next
  case (Cons r rs)
  show ?case
  proof (cases d)
    case 0
    with Cons.prems show ?thesis by simp
  next
    case (Suc d')
    from Cons.prems Suc have r: "error r = ZOK" by auto
    from Cons.prems Suc have "d' < length rs" "error (rs ! d') \<noteq> ZOK" by auto
    moreover from Cons.prems Suc have "\<forall>j<d'. error (rs ! j) = ZOK" by fastforce
    ultimately have "first_failed (Suc k) rs = Some (Suc k + d')" by (rule Cons.IH)
    with r Suc show ?thesis by simp
  qed
qed

lemma first_failed_None:
  "first_failed k rs = None \<longleftrightarrow> (\<forall>r\<in>set rs. error r = ZOK)"
  by (induction rs arbitrary: k) auto

text \<open>
  Claim C1 (amended). When \<^verbatim>\<open>KeeperMultiException::check\<close> is given a user-error code and
  \<open>i\<close> is the index of the first response whose code is not \<open>ZOK\<close> (with a request at that
  index), it raises a \<^verbatim>\<open>KeeperMultiException\<close> whose failed-op index is \<open>i\<close> and whose added
  message carries the path of request \<open>i\<close>. When the response list is empty or holds no
  non-OK response, \<^verbatim>\<open>getFailedOpIndex\<close> raises a \<^verbatim>\<open>LOGICAL_ERROR\<close> exception for every code,
  and that exception is what \<^verbatim>\<open>check\<close> raises for a user-error code. For a code that is
  neither \<open>ZOK\<close> nor a user error, \<^verbatim>\<open>check\<close> raises the plain \<^verbatim>\<open>KeeperException(code)\<close> and
  does not consult the response list. And for every code, user error or not,
  \<^verbatim>\<open>getFailedOpIndex\<close> returns the index of the first response whose code is not \<open>ZOK\<close>
  whenever there is one: being consulted for a code that is not a user error does not by
  itself raise.
\<close>

theorem multi_failure_report:
  "(isUserError code \<and> i < length resps \<and> error (resps ! i) \<noteq> ZOK
      \<and> (\<forall>j<i. error (resps ! j) = ZOK) \<and> i < length requests
    \<longrightarrow> KeeperMultiException_check em code requests resps =
          Inl (KeeperMultiException code requests resps i
                (''Op #'' @ to_string i @ '', path: '' @ getPath (requests ! i))))
   \<and> ((resps = [] \<or> (\<forall>r\<in>set resps. error r = ZOK))
    \<longrightarrow> (\<exists>msg. getFailedOpIndex em code resps = Inl (DB_Exception msg LOGICAL_ERROR))
        \<and> (isUserError code \<longrightarrow>
             (\<exists>msg. KeeperMultiException_check em code requests resps
                      = Inl (DB_Exception msg LOGICAL_ERROR))))
   \<and> (code \<noteq> ZOK \<and> \<not> isUserError code
    \<longrightarrow> KeeperMultiException_check em code requests resps = Inl (KeeperException_code code))
   \<and> (i < length resps \<and> error (resps ! i) \<noteq> ZOK \<and> (\<forall>j<i. error (resps ! j) = ZOK)
    \<longrightarrow> getFailedOpIndex em code resps = Inr i)"
proof (intro conjI impI)
  assume a: "isUserError code \<and> i < length resps \<and> error (resps ! i) \<noteq> ZOK
      \<and> (\<forall>j<i. error (resps ! j) = ZOK) \<and> i < length requests"
  then have "first_failed 0 resps = Some (0 + i)" by (intro first_failed_at) auto
  moreover from a have "resps \<noteq> []" "code \<noteq> ZOK" by (auto simp: isUserError_def)
  ultimately show "KeeperMultiException_check em code requests resps =
          Inl (KeeperMultiException code requests resps i
                (''Op #'' @ to_string i @ '', path: '' @ getPath (requests ! i)))"
    using a by (simp add: KeeperMultiException_check_def KeeperMultiException_ctor_def
        getFailedOpIndex_def)
next
  assume a: "resps = [] \<or> (\<forall>r\<in>set resps. error r = ZOK)"
  then have n: "resps \<noteq> [] \<Longrightarrow> first_failed 0 resps = None"
    by (auto simp: first_failed_None)
  then show g: "\<exists>msg. getFailedOpIndex em code resps = Inl (DB_Exception msg LOGICAL_ERROR)"
    by (cases "resps = []") (simp_all add: getFailedOpIndex_def)
  assume u: "isUserError code"
  then have "code \<noteq> ZOK" by (auto simp: isUserError_def)
  with g u show "\<exists>msg. KeeperMultiException_check em code requests resps
                      = Inl (DB_Exception msg LOGICAL_ERROR)"
    by (auto simp: KeeperMultiException_check_def KeeperMultiException_ctor_def)
next
  assume "code \<noteq> ZOK \<and> \<not> isUserError code"
  then show "KeeperMultiException_check em code requests resps = Inl (KeeperException_code code)"
    by (simp add: KeeperMultiException_check_def)
next
  assume a: "i < length resps \<and> error (resps ! i) \<noteq> ZOK \<and> (\<forall>j<i. error (resps ! j) = ZOK)"
  then have "first_failed 0 resps = Some (0 + i)" by (intro first_failed_at) auto
  moreover from a have "resps \<noteq> []" by auto
  ultimately show "getFailedOpIndex em code resps = Inr i"
    by (simp add: getFailedOpIndex_def)
qed

text \<open>The cases of C1 on concrete transactions; in the last one \<^verbatim>\<open>getFailedOpIndex\<close> is
  consulted for a connection loss and still finds the failed operation at index 1.\<close>

theorem multi_failure_report_witness:
  "KeeperMultiException_check (\<lambda>c. []) ZBADVERSION
      [CheckRequest ''/a'' 0, SetRequest ''/b'' ''x'' 3]
      [\<lparr>error = ZOK\<rparr>, \<lparr>error = ZBADVERSION\<rparr>]
    = Inl (KeeperMultiException ZBADVERSION
        [CheckRequest ''/a'' 0, SetRequest ''/b'' ''x'' 3]
        [\<lparr>error = ZOK\<rparr>, \<lparr>error = ZBADVERSION\<rparr>] 1 ''Op #1, path: /b'')
   \<and> (\<exists>msg. KeeperMultiException_check (\<lambda>c. []) ZNONODE
        [RemoveRequest ''/a'' (-1)] [\<lparr>error = ZOK\<rparr>] = Inl (DB_Exception msg LOGICAL_ERROR))
   \<and> (\<exists>msg. KeeperMultiException_check (\<lambda>c. []) ZNONODE
        [RemoveRequest ''/a'' (-1)] [] = Inl (DB_Exception msg LOGICAL_ERROR))
   \<and> KeeperMultiException_check (\<lambda>c. []) ZCONNECTIONLOSS
        [RemoveRequest ''/a'' (-1)] [] = Inl (KeeperException_code ZCONNECTIONLOSS)
   \<and> getFailedOpIndex (\<lambda>c. []) ZCONNECTIONLOSS [\<lparr>error = ZOK\<rparr>, \<lparr>error = ZNONODE\<rparr>] = Inr 1"
  using multi_failure_report [of ZBADVERSION 1 "[\<lparr>error = ZOK\<rparr>, \<lparr>error = ZBADVERSION\<rparr>]"
      "[CheckRequest ''/a'' 0, SetRequest ''/b'' ''x'' 3]" "\<lambda>c. []"]
    multi_failure_report [of ZNONODE 0 "[\<lparr>error = ZOK\<rparr>]" "[RemoveRequest ''/a'' (-1)]" "\<lambda>c. []"]
    multi_failure_report [of ZNONODE 0 "[]" "[RemoveRequest ''/a'' (-1)]" "\<lambda>c. []"]
    multi_failure_report [of ZCONNECTIONLOSS 0 "[]" "[RemoveRequest ''/a'' (-1)]" "\<lambda>c. []"]
    multi_failure_report [of ZCONNECTIONLOSS 1 "[\<lparr>error = ZOK\<rparr>, \<lparr>error = ZNONODE\<rparr>]" "[]"
      "\<lambda>c. []"]
  by (simp add: isUserError_def digit_def)

text \<open>
  Claim C1 as stated fails in its last case: consulted for a code that is not a user error,
  \<^verbatim>\<open>getFailedOpIndex\<close> still returns the index of the first non-OK response; the
  \<^verbatim>\<open>LOGICAL_ERROR\<close> for such a code is raised only after the search has found nothing.
\<close>

theorem non_user_code_counterexample:
  "\<not> isUserError ZCONNECTIONLOSS
   \<and> getFailedOpIndex (\<lambda>c. []) ZCONNECTIONLOSS [\<lparr>error = ZNONODE\<rparr>] = Inr 0"
  by (simp add: isUserError_def getFailedOpIndex_def)

section \<open>Properties: the deadline of the synchronous bridge\<close>

text \<open>
  Claim C2. In each of the seven synchronous wrappers, when the request has been submitted
  and its future is not ready within \<^verbatim>\<open>operation_timeout_ms\<close>, the wrapper calls
  \<^verbatim>\<open>impl->finalize\<close> on the session, with the operation-timeout reason, and returns
  \<open>ZOPERATIONTIMEOUT\<close>; the caller's output variables are left as they were. (\<^verbatim>\<open>multiImpl\<close>
  submits a request only for a non-empty request list.)
\<close>

theorem timeout_finalizes:
  "(list_op eng path w s = (Inr fa, sa) \<and> wait_for fa = None \<longrightarrow>
      getChildrenImpl eng path res st w s =
        (Inr (ZOPERATIONTIMEOUT, res, st), finalize_op eng (Operation_timeout OpNum_List path) sa))
 \<and> (create_op eng path content (mode AND 1 \<noteq> 0) (mode AND 2 \<noteq> 0) s = (Inr fb, sb)
      \<and> wait_for fb = None \<longrightarrow>
      createImpl eng path content mode created s =
        (Inr (ZOPERATIONTIMEOUT, created), finalize_op eng (Operation_timeout OpNum_Create path) sb))
 \<and> (remove_op eng path ver s = (Inr fc, sc) \<and> wait_for fc = None \<longrightarrow>
      removeImpl eng path ver s =
        (Inr ZOPERATIONTIMEOUT, finalize_op eng (Operation_timeout OpNum_Remove path) sc))
 \<and> (exists_op eng path w s = (Inr fd, sd) \<and> wait_for fd = None \<longrightarrow>
      existsImpl eng path st w s =
        (Inr (ZOPERATIONTIMEOUT, st), finalize_op eng (Operation_timeout OpNum_Exists path) sd))
 \<and> (get_op eng path w s = (Inr fe, se) \<and> wait_for fe = None \<longrightarrow>
      getImpl eng path old st w s =
        (Inr (ZOPERATIONTIMEOUT, old, st), finalize_op eng (Operation_timeout OpNum_Get path) se))
 \<and> (set_op eng path content ver s = (Inr ff, sf) \<and> wait_for ff = None \<longrightarrow>
      setImpl eng path content ver st s =
        (Inr (ZOPERATIONTIMEOUT, st), finalize_op eng (Operation_timeout OpNum_Set path) sf))
 \<and> (requests \<noteq> [] \<and> multi_op eng requests s = (Inr fg, sg) \<and> wait_for fg = None \<longrightarrow>
      multiImpl eng requests resps s =
        (Inr (ZOPERATIONTIMEOUT, resps),
         finalize_op eng (Operation_timeout OpNum_Multi (getPath (requests ! 0))) sg))"
  by (simp add: getChildrenImpl_def createImpl_def removeImpl_def existsImpl_def getImpl_def
      setImpl_def multiImpl_def)

text \<open>C2 on the scripted engine that never answers: each wrapper returns the timeout code
  and the engine has recorded the call followed by \<^verbatim>\<open>finalize\<close>.\<close>

theorem timeout_finalizes_witness:
  "getChildrenImpl script_engine ''/a'' [] None Empty_callback \<lparr>script = [], calls = []\<rparr>
     = (Inr (ZOPERATIONTIMEOUT, [], None),
        \<lparr>script = [], calls = [Call_list ''/a'' Empty_callback,
            Call_finalize (Operation_timeout OpNum_List ''/a'')]\<rparr>)
 \<and> createImpl script_engine ''/a'' ''x'' 0 [] \<lparr>script = [], calls = []\<rparr>
     = (Inr (ZOPERATIONTIMEOUT, []),
        \<lparr>script = [], calls = [Call_create ''/a'' ''x'' False False,
            Call_finalize (Operation_timeout OpNum_Create ''/a'')]\<rparr>)
 \<and> removeImpl script_engine ''/a'' (-1) \<lparr>script = [], calls = []\<rparr>
     = (Inr ZOPERATIONTIMEOUT,
        \<lparr>script = [], calls = [Call_remove ''/a'' (-1),
            Call_finalize (Operation_timeout OpNum_Remove ''/a'')]\<rparr>)
 \<and> existsImpl script_engine ''/a'' None Empty_callback \<lparr>script = [], calls = []\<rparr>
     = (Inr (ZOPERATIONTIMEOUT, None),
        \<lparr>script = [], calls = [Call_exists ''/a'' Empty_callback,
            Call_finalize (Operation_timeout OpNum_Exists ''/a'')]\<rparr>)
 \<and> getImpl script_engine ''/a'' ''old'' None Empty_callback \<lparr>script = [], calls = []\<rparr>
     = (Inr (ZOPERATIONTIMEOUT, ''old'', None),
        \<lparr>script = [], calls = [Call_get ''/a'' Empty_callback,
            Call_finalize (Operation_timeout OpNum_Get ''/a'')]\<rparr>)
 \<and> setImpl script_engine ''/a'' ''x'' (-1) None \<lparr>script = [], calls = []\<rparr>
     = (Inr (ZOPERATIONTIMEOUT, None),
        \<lparr>script = [], calls = [Call_set ''/a'' ''x'' (-1),
            Call_finalize (Operation_timeout OpNum_Set ''/a'')]\<rparr>)
 \<and> multiImpl script_engine [RemoveRequest ''/a'' (-1)] [] \<lparr>script = [], calls = []\<rparr>
     = (Inr (ZOPERATIONTIMEOUT, []),
        \<lparr>script = [], calls = [Call_multi [RemoveRequest ''/a'' (-1)],
            Call_finalize (Operation_timeout OpNum_Multi ''/a'')]\<rparr>)"
  using timeout_finalizes [where eng = script_engine and path = "''/a''" and w = Empty_callback
      and s = "\<lparr>script = [], calls = []\<rparr>" and content = "''x''" and mode = 0 and ver = "-1"
      and requests = "[RemoveRequest ''/a'' (-1)]" and res = "[]" and st = None
      and created = "[]" and old = "''old''" and resps = "[]"
      and fa = Never and fb = Never and fc = Never and fd = Never
      and fe = Never and ff = Never and fg = Never
      and sa = "\<lparr>script = [], calls = [Call_list ''/a'' Empty_callback]\<rparr>"
      and sb = "\<lparr>script = [], calls = [Call_create ''/a'' ''x'' False False]\<rparr>"
      and sc = "\<lparr>script = [], calls = [Call_remove ''/a'' (-1)]\<rparr>"
      and sd = "\<lparr>script = [], calls = [Call_exists ''/a'' Empty_callback]\<rparr>"
      and se = "\<lparr>script = [], calls = [Call_get ''/a'' Empty_callback]\<rparr>"
      and sf = "\<lparr>script = [], calls = [Call_set ''/a'' ''x'' (-1)]\<rparr>"
      and sg = "\<lparr>script = [], calls = [Call_multi [RemoveRequest ''/a'' (-1)]]\<rparr>"]
  by (simp add: script_engine_def submit_silent)

section \<open>Properties: the error classification of the try variants\<close>

text \<open>
  Claim C3. Whatever code the \<^verbatim>\<open>...Impl\<close> function returns, the try variant returns it as
  a value exactly when it is \<open>ZOK\<close> or in the non-fatal set of the operation (create:
  \<open>ZNODEEXISTS\<close>, \<open>ZNONODE\<close>, \<open>ZNOCHILDRENFOREPHEMERALS\<close>; remove: \<open>ZNONODE\<close>,
  \<open>ZBADVERSION\<close>, \<open>ZNOTEMPTY\<close>; set: \<open>ZNONODE\<close>, \<open>ZBADVERSION\<close>; exists, get, list:
  \<open>ZNONODE\<close>), and raises \<^verbatim>\<open>KeeperException(code, path)\<close> for every other code.
  \<^verbatim>\<open>existsWatch\<close> returns the code as the boolean "not \<open>ZNONODE\<close>" and \<^verbatim>\<open>tryGetWatch\<close> as the
  boolean "is \<open>ZOK\<close>" (and through \<open>return_code\<close>); the variants taking an event go through
  the ones taking a callback. In particular \<^verbatim>\<open>tryRemove\<close> returns \<open>ZNONODE\<close> when the engine
  answers in time that the node does not exist.
\<close>

theorem try_variants_classify:
  "(createImpl eng path content mode created s = (Inr (c1, created'), sa) \<longrightarrow>
      tryCreate eng path content mode created s =
        (if c1 = ZOK \<or> c1 = ZNODEEXISTS \<or> c1 = ZNONODE \<or> c1 = ZNOCHILDRENFOREPHEMERALS
         then (Inr (c1, created'), sa) else (Inl (KeeperException_path c1 path), sa)))
 \<and> (removeImpl eng path ver s = (Inr c2, sb) \<longrightarrow>
      tryRemove eng path ver s =
        (if c2 = ZOK \<or> c2 = ZNONODE \<or> c2 = ZBADVERSION \<or> c2 = ZNOTEMPTY
         then (Inr c2, sb) else (Inl (KeeperException_path c2 path), sb)))
 \<and> (setImpl eng path content ver st s = (Inr (c3, st3), sc) \<longrightarrow>
      trySet eng path content ver st s =
        (if c3 = ZOK \<or> c3 = ZNONODE \<or> c3 = ZBADVERSION
         then (Inr (c3, st3), sc) else (Inl (KeeperException_path c3 path), sc)))
 \<and> (existsImpl eng path st w s = (Inr (c4, st4), sd) \<longrightarrow>
      existsWatch eng path st w s =
        (if c4 = ZOK \<or> c4 = ZNONODE
         then (Inr (c4 \<noteq> ZNONODE, st4), sd) else (Inl (KeeperException_path c4 path), sd)))
 \<and> (getImpl eng path res st w s = (Inr (c5, res5, st5), se) \<longrightarrow>
      tryGetWatch eng path res st w rc s =
        (if c5 = ZOK \<or> c5 = ZNONODE
         then (Inr (c5 = ZOK, res5, st5, map_option (\<lambda>old. c5) rc), se)
         else (Inl (KeeperException_path c5 path), se)))
 \<and> (getChildrenImpl eng path children st w s = (Inr (c6, children6, st6), sf) \<longrightarrow>
      tryGetChildrenWatch eng path children st w s =
        (if c6 = ZOK \<or> c6 = ZNONODE
         then (Inr (c6, children6, st6), sf) else (Inl (KeeperException_path c6 path), sf)))
 \<and> exists eng path st watch s = existsWatch eng path st (callbackForEvent watch) s
 \<and> tryGet eng path res st watch rc s = tryGetWatch eng path res st (callbackForEvent watch) rc s
 \<and> tryGetChildren eng path children st watch s
      = tryGetChildrenWatch eng path children st (callbackForEvent watch) s
 \<and> (remove_op eng path ver s = (Inr (InTime r), sg) \<and> error r = ZNONODE \<longrightarrow>
      tryRemove eng path ver s = (Inr ZNONODE, sg))"
  by (simp add: tryCreate_def tryRemove_def trySet_def existsWatch_def tryGetWatch_def
      tryGetChildrenWatch_def exists_def tryGet_def tryGetChildren_def removeImpl_def)

text \<open>C3 on the scripted engine: non-fatal codes come back as values, a connection loss is
  raised with the path.\<close>

theorem try_variants_classify_witness:
  "tryCreate script_engine ''/a'' ''x'' 0 [] \<lparr>script = [Replies True ZNODEEXISTS [] []], calls = []\<rparr>
     = (Inr (ZNODEEXISTS, []), \<lparr>script = [], calls = [Call_create ''/a'' ''x'' False False]\<rparr>)
 \<and> tryRemove script_engine ''/a'' (-1) \<lparr>script = [Replies True ZNONODE [] []], calls = []\<rparr>
     = (Inr ZNONODE, \<lparr>script = [], calls = [Call_remove ''/a'' (-1)]\<rparr>)
 \<and> trySet script_engine ''/a'' ''x'' (-1) None
       \<lparr>script = [Replies True ZBADVERSION [] []], calls = []\<rparr>
     = (Inr (ZBADVERSION, None), \<lparr>script = [], calls = [Call_set ''/a'' ''x'' (-1)]\<rparr>)
 \<and> existsWatch script_engine ''/a'' None Empty_callback
       \<lparr>script = [Replies True ZNONODE [] []], calls = []\<rparr>
     = (Inr (False, None), \<lparr>script = [], calls = [Call_exists ''/a'' Empty_callback]\<rparr>)
 \<and> tryGetWatch script_engine ''/a'' ''old'' None Empty_callback (Some ZOK)
       \<lparr>script = [Replies True ZNONODE [] []], calls = []\<rparr>
     = (Inr (False, ''old'', None, Some ZNONODE),
        \<lparr>script = [], calls = [Call_get ''/a'' Empty_callback]\<rparr>)
 \<and> tryGetChildrenWatch script_engine ''/a'' [] None Empty_callback
       \<lparr>script = [Replies True ZCONNECTIONLOSS [] []], calls = []\<rparr>
     = (Inl (KeeperException_path ZCONNECTIONLOSS ''/a''),
        \<lparr>script = [], calls = [Call_list ''/a'' Empty_callback]\<rparr>)"
  using try_variants_classify [where eng = script_engine and path = "''/a''" and content = "''x''"
      and mode = 0 and created = "[]" and ver = "-1" and st = None and w = Empty_callback
      and res = "''old''" and rc = "Some ZOK" and children = "[]"
      and s = "\<lparr>script = [Replies True ZNODEEXISTS [] []], calls = []\<rparr>"]
    try_variants_classify [where eng = script_engine and path = "''/a''" and content = "''x''"
      and mode = 0 and created = "[]" and ver = "-1" and st = None and w = Empty_callback
      and res = "''old''" and rc = "Some ZOK" and children = "[]"
      and s = "\<lparr>script = [Replies True ZNONODE [] []], calls = []\<rparr>"]
    try_variants_classify [where eng = script_engine and path = "''/a''" and content = "''x''"
      and mode = 0 and created = "[]" and ver = "-1" and st = None and w = Empty_callback
      and res = "''old''" and rc = "Some ZOK" and children = "[]"
      and s = "\<lparr>script = [Replies True ZBADVERSION [] []], calls = []\<rparr>"]
    try_variants_classify [where eng = script_engine and path = "''/a''" and content = "''x''"
      and mode = 0 and created = "[]" and ver = "-1" and st = None and w = Empty_callback
      and res = "''old''" and rc = "Some ZOK" and children = "[]"
      and s = "\<lparr>script = [Replies True ZCONNECTIONLOSS [] []], calls = []\<rparr>"]
  by (simp add: script_engine_def submit_reply createImpl_def removeImpl_def setImpl_def
      existsImpl_def getImpl_def getChildrenImpl_def)

section \<open>Properties: the transaction wrapper\<close>

text \<open>
  Claim C8. For an empty request list \<^verbatim>\<open>multiImpl\<close>, \<^verbatim>\<open>multi\<close>, \<^verbatim>\<open>tryMulti\<close> and
  \<^verbatim>\<open>tryMultiNoThrow\<close> succeed for every engine and leave the engine state untouched: no
  request is submitted. \<^verbatim>\<open>multi\<close> returns the empty response list; the others return \<open>ZOK\<close>
  and leave the caller's response list as it was.
\<close>

theorem empty_multi_short_circuit:
  "multiImpl eng [] resps s = (Inr (ZOK, resps), s)
 \<and> multi errorMessage eng [] s = (Inr [], s)
 \<and> tryMulti eng [] resps s = (Inr (ZOK, resps), s)
 \<and> tryMultiNoThrow eng [] resps s = (Inr (ZOK, resps), s)"
  by (simp add: multiImpl_def multi_def tryMulti_def tryMultiNoThrow_def
      KeeperMultiException_check_def)

text \<open>C8 on a scripted engine that would raise on any call: nothing is recorded.\<close>

theorem empty_multi_short_circuit_witness:
  "multi (\<lambda>c. []) script_engine [] \<lparr>script = [Raises (Foreign_exception ''unused'')], calls = []\<rparr>
     = (Inr [], \<lparr>script = [Raises (Foreign_exception ''unused'')], calls = []\<rparr>)
 \<and> tryMulti script_engine [] [] \<lparr>script = [Raises (Foreign_exception ''unused'')], calls = []\<rparr>
     = (Inr (ZOK, []), \<lparr>script = [Raises (Foreign_exception ''unused'')], calls = []\<rparr>)"
  using empty_multi_short_circuit [of script_engine "[]"
      "\<lparr>script = [Raises (Foreign_exception ''unused'')], calls = []\<rparr>" "\<lambda>c. []"]
  by simp

text \<open>
  Claim C10. \<^verbatim>\<open>tryMultiNoThrow\<close> never lets a coordination exception through: a code that
  \<^verbatim>\<open>multiImpl\<close> returns is returned, whatever its class, and a coordination exception that
  escapes from \<^verbatim>\<open>multiImpl\<close> is turned into its code. \<^verbatim>\<open>tryMulti\<close> on the same call raises
  \<^verbatim>\<open>KeeperException(code)\<close> for every code that is neither \<open>ZOK\<close> nor a user error, and lets
  the escaping exception through.
\<close>

theorem tryMultiNoThrow_returns_code:
  "\<not> (\<exists>e sa. tryMultiNoThrow eng requests resps s = (Inl e, sa) \<and> is_coordination_exception e)
 \<and> (multiImpl eng requests resps s = (Inr (code, resps'), sb) \<longrightarrow>
      tryMultiNoThrow eng requests resps s = (Inr (code, resps'), sb)
      \<and> tryMulti eng requests resps s =
          (if code \<noteq> ZOK \<and> \<not> isUserError code then (Inl (KeeperException_code code), sb)
           else (Inr (code, resps'), sb)))
 \<and> (multiImpl eng requests resps s = (Inl e, sc) \<and> code_of e = Some c \<longrightarrow>
      tryMultiNoThrow eng requests resps s = (Inr (c, resps), sc)
      \<and> tryMulti eng requests resps s = (Inl e, sc))"
  by (auto simp: tryMultiNoThrow_def tryMulti_def is_coordination_exception_def
      split: prod.splits sum.splits option.splits)

text \<open>C10 on the scripted engine: an operation timeout and a session-expired exception
  raised at submission both come back from \<^verbatim>\<open>tryMultiNoThrow\<close> as codes.\<close>

theorem tryMultiNoThrow_returns_code_witness:
  "tryMultiNoThrow script_engine [RemoveRequest ''/a'' (-1)] [] \<lparr>script = [], calls = []\<rparr>
     = (Inr (ZOPERATIONTIMEOUT, []),
        \<lparr>script = [], calls = [Call_multi [RemoveRequest ''/a'' (-1)],
            Call_finalize (Operation_timeout OpNum_Multi ''/a'')]\<rparr>)
 \<and> tryMulti script_engine [RemoveRequest ''/a'' (-1)] [] \<lparr>script = [], calls = []\<rparr>
     = (Inl (KeeperException_code ZOPERATIONTIMEOUT),
        \<lparr>script = [], calls = [Call_multi [RemoveRequest ''/a'' (-1)],
            Call_finalize (Operation_timeout OpNum_Multi ''/a'')]\<rparr>)
 \<and> tryMultiNoThrow script_engine [RemoveRequest ''/a'' (-1)] []
       \<lparr>script = [Raises (KeeperException_message ''Session expired'' (ZOTHERERROR 112))],
        calls = []\<rparr>
     = (Inr (ZOTHERERROR 112, []),
        \<lparr>script = [], calls = [Call_multi [RemoveRequest ''/a'' (-1)]]\<rparr>)"
  using tryMultiNoThrow_returns_code [where eng = script_engine
      and requests = "[RemoveRequest ''/a'' (-1)]" and resps = "[]"
      and s = "\<lparr>script = [], calls = []\<rparr>" and code = ZOPERATIONTIMEOUT and resps' = "[]"
      and sb = "\<lparr>script = [], calls = [Call_multi [RemoveRequest ''/a'' (-1)],
            Call_finalize (Operation_timeout OpNum_Multi ''/a'')]\<rparr>"]
    tryMultiNoThrow_returns_code [where eng = script_engine
      and requests = "[RemoveRequest ''/a'' (-1)]" and resps = "[]"
      and s = "\<lparr>script = [Raises (KeeperException_message ''Session expired'' (ZOTHERERROR 112))],
        calls = []\<rparr>"
      and e = "KeeperException_message ''Session expired'' (ZOTHERERROR 112)"
      and c = "ZOTHERERROR 112"
      and sc = "\<lparr>script = [], calls = [Call_multi [RemoveRequest ''/a'' (-1)]]\<rparr>"]
  by (simp add: multiImpl_def script_engine_def submit_silent submit_raises isUserError_def)

section \<open>Properties: host selection\<close>

lemma mset_insert_sorted: "mset (insert_sorted cmp x xs) = add_mset x (mset xs)"
  by (induction xs) auto

lemma mset_std_sort: "mset (std_sort cmp xs) = mset xs"
  unfolding std_sort_def by (induction xs) (auto simp: mset_insert_sorted)







lemma map_host_annotated:
  "map host (map (\<lambda>i. \<lparr>host = hosts ! i, priority = p i, random = d i\<rparr>) [0..<length hosts]) = hosts"
  by (simp add: o_def map_nth)

lemma shuffleHosts_hosts:
  "mset (map host (shuffleHosts hosts get_priority draws)) = mset hosts"
proof -
  have "mset (map host (shuffleHosts hosts get_priority draws))
      = image_mset host (mset (shuffleHosts hosts get_priority draws))" by simp
  also have "\<dots> = image_mset host (mset (map (\<lambda>i. \<lparr>host = hosts ! i,
                   priority = (case get_priority of None \<Rightarrow> default_priority
                               | Some f \<Rightarrow> int (f i)),
                   random = draws i\<rparr>) [0..<length hosts]))"
    by (simp only: shuffleHosts_def mset_std_sort)
  also have "\<dots> = mset hosts"
    using map_host_annotated[of hosts] by (metis mset_map)
  finally show ?thesis .
qed





section \<open>Properties: host resolution in init\<close>

lemma resolve_hosts_caught:
  "(\<forall>h\<in>set hs. \<forall>e. resolve (host_string (host h)) \<noteq> Uncaught e) \<Longrightarrow>
   resolve_hosts resolve hs nodes dns_error =
     Inr (nodes @ resolved_nodes resolve hs,
          dns_error \<or> (\<exists>h\<in>set hs. \<exists>msg. resolve (host_string (host h)) = DNSException msg))"
proof (induction hs arbitrary: nodes dns_error)
  case Nil
  then show ?case by (simp add: resolved_nodes_def)
next
  case (Cons h hs)
  then have ih: "\<And>nodes dns_error. resolve_hosts resolve hs nodes dns_error =
     Inr (nodes @ resolved_nodes resolve hs,
          dns_error \<or> (\<exists>h\<in>set hs. \<exists>msg. resolve (host_string (host h)) = DNSException msg))"
    by simp
  from Cons.prems have nu: "\<And>e. resolve (host_string (host h)) \<noteq> Uncaught e" by simp
  show ?case
  proof (cases "resolve (host_string (host h))")
    case (Resolved address)
    then show ?thesis using ih
      by (simp add: Let_def host_string_def[symmetric] resolved_nodes_def)
  next
    case (HostNotFoundException msg)
    then show ?thesis using ih
      by (simp add: Let_def host_string_def[symmetric] resolved_nodes_def)
  next
    case (DNSException msg)
    then show ?thesis using ih
      by (simp add: Let_def host_string_def[symmetric] resolved_nodes_def)
  next
    case (Uncaught e)
    with nu show ?thesis by blast
  qed
qed

lemma resolved_nodes_empty:
  "resolved_nodes resolve hs = [] \<longleftrightarrow>
     (\<forall>h\<in>set hs. \<forall>address. resolve (host_string (host h)) \<noteq> Resolved address)"
  by (induction hs) (auto simp: resolved_nodes_def split: resolution.splits)

lemma set_shuffled_hosts: "host ` set (shuffleHosts hosts get_priority draws) = set hosts"
proof -
  have "mset (map host (shuffleHosts hosts get_priority draws)) = mset hosts"
    by (rule shuffleHosts_hosts)
  then have "set (map host (shuffleHosts hosts get_priority draws)) = set hosts"
    by (rule mset_eq_setD)
  then show ?thesis by simp
qed

text \<open>
  Claim C7. In \<^verbatim>\<open>init\<close> with the implementation "zookeeper": when every resolution failure
  is a \<^verbatim>\<open>HostNotFoundException\<close> or another \<^verbatim>\<open>DNSException\<close> and at least one host resolves,
  \<^verbatim>\<open>init\<close> goes on with a non-empty node list (only the check of the root can still fail).
  When the host list is not empty and no host resolves, \<^verbatim>\<open>init\<close> raises a \<^verbatim>\<open>KeeperException\<close>
  with the code \<open>ZCONNECTIONLOSS\<close> if at least one failure was a DNS error, and with the code
  \<open>ZBADARGUMENTS\<close> if every failure was host-not-found.
\<close>

theorem init_host_resolution:
  "((\<forall>h\<in>set hosts. \<forall>e. resolve (host_string h) \<noteq> Uncaught e)
      \<and> (\<exists>h\<in>set hosts. \<exists>address. resolve (host_string h) = Resolved address) \<longrightarrow>
      (\<exists>nodes. nodes \<noteq> []
         \<and> init ''zookeeper'' hosts chroot get_priority draws resolve root_exists =
             (case check_root chroot root_exists of
                Inl e \<Rightarrow> Inl e
              | Inr u \<Rightarrow> Inr (ZooKeeper_impl nodes))))
   \<and> (hosts \<noteq> []
      \<and> (\<forall>h\<in>set hosts. \<exists>msg. resolve (host_string h) = HostNotFoundException msg
                               \<or> resolve (host_string h) = DNSException msg)
      \<and> (\<exists>h\<in>set hosts. \<exists>msg. resolve (host_string h) = DNSException msg) \<longrightarrow>
      init ''zookeeper'' hosts chroot get_priority draws resolve root_exists =
        Inl (KeeperException_message
               ''Cannot resolve any of provided ZooKeeper hosts due to DNS error'' ZCONNECTIONLOSS))
   \<and> (hosts \<noteq> []
      \<and> (\<forall>h\<in>set hosts. \<exists>msg. resolve (host_string h) = HostNotFoundException msg) \<longrightarrow>
      init ''zookeeper'' hosts chroot get_priority draws resolve root_exists =
        Inl (KeeperException_message ''Cannot use any of provided ZooKeeper nodes'' ZBADARGUMENTS))"
proof -
  let ?sh = "shuffleHosts hosts get_priority draws"
  have sh: "host ` set ?sh = set hosts" by (rule set_shuffled_hosts)
  have all: "(\<forall>h\<in>set ?sh. P (resolve (host_string (host h)))) \<longleftrightarrow>
             (\<forall>h\<in>set hosts. P (resolve (host_string h)))" for P
  proof -
    have "(\<forall>h\<in>host ` set ?sh. P (resolve (host_string h))) \<longleftrightarrow>
          (\<forall>h\<in>set ?sh. P (resolve (host_string (host h))))" by blast
    then show ?thesis by (simp only: sh)
  qed
  have ex: "(\<exists>h\<in>set ?sh. P (resolve (host_string (host h)))) \<longleftrightarrow>
             (\<exists>h\<in>set hosts. P (resolve (host_string h)))" for P
  proof -
    have "(\<exists>h\<in>host ` set ?sh. P (resolve (host_string h))) \<longleftrightarrow>
          (\<exists>h\<in>set ?sh. P (resolve (host_string (host h))))" by blast
    then show ?thesis by (simp only: sh)
  qed
  have run: "resolve_hosts resolve ?sh [] False =
     Inr (resolved_nodes resolve ?sh,
          \<exists>h\<in>set hosts. \<exists>msg. resolve (host_string h) = DNSException msg)"
    if "\<forall>h\<in>set hosts. \<forall>e. resolve (host_string h) \<noteq> Uncaught e"
  proof -
    from that have "\<forall>h\<in>set ?sh. \<forall>e. resolve (host_string (host h)) \<noteq> Uncaught e"
      using all[of "\<lambda>r. \<forall>e. r \<noteq> Uncaught e"] by simp
    from resolve_hosts_caught[OF this, of "[]" False]
    show ?thesis using ex[of "\<lambda>r. \<exists>msg. r = DNSException msg"] by simp
  qed
  have none: "resolved_nodes resolve ?sh = [] \<longleftrightarrow>
     (\<forall>h\<in>set hosts. \<forall>address. resolve (host_string h) \<noteq> Resolved address)"
    using all[of "\<lambda>r. \<forall>address. r \<noteq> Resolved address"] by (simp add: resolved_nodes_empty)
  show ?thesis
  proof (intro conjI impI)
    assume a: "(\<forall>h\<in>set hosts. \<forall>e. resolve (host_string h) \<noteq> Uncaught e)
      \<and> (\<exists>h\<in>set hosts. \<exists>address. resolve (host_string h) = Resolved address)"
    then have ne: "resolved_nodes resolve ?sh \<noteq> []" "hosts \<noteq> []" using none by auto
    from a run have "resolve_hosts resolve ?sh [] False =
     Inr (resolved_nodes resolve ?sh,
          \<exists>h\<in>set hosts. \<exists>msg. resolve (host_string h) = DNSException msg)" by simp
    with ne have "init ''zookeeper'' hosts chroot get_priority draws resolve root_exists =
             (case check_root chroot root_exists of
                Inl e \<Rightarrow> Inl e
              | Inr u \<Rightarrow> Inr (ZooKeeper_impl (resolved_nodes resolve ?sh)))"
      by (simp add: init_def)
    with ne show "\<exists>nodes. nodes \<noteq> []
         \<and> init ''zookeeper'' hosts chroot get_priority draws resolve root_exists =
             (case check_root chroot root_exists of
                Inl e \<Rightarrow> Inl e
              | Inr u \<Rightarrow> Inr (ZooKeeper_impl nodes))" by blast
  next
    assume a: "hosts \<noteq> []
      \<and> (\<forall>h\<in>set hosts. \<exists>msg. resolve (host_string h) = HostNotFoundException msg
                               \<or> resolve (host_string h) = DNSException msg)
      \<and> (\<exists>h\<in>set hosts. \<exists>msg. resolve (host_string h) = DNSException msg)"
    then have "\<forall>h\<in>set hosts. \<forall>e. resolve (host_string h) \<noteq> Uncaught e" by fastforce
    from run[OF this] have r: "resolve_hosts resolve ?sh [] False =
       Inr (resolved_nodes resolve ?sh, True)" using a by simp
    from a have "\<forall>h\<in>set hosts. \<forall>address. resolve (host_string h) \<noteq> Resolved address"
      by fastforce
    then have "resolved_nodes resolve ?sh = []" using none by simp
    with r a show "init ''zookeeper'' hosts chroot get_priority draws resolve root_exists =
        Inl (KeeperException_message
               ''Cannot resolve any of provided ZooKeeper hosts due to DNS error'' ZCONNECTIONLOSS)"
      by (simp add: init_def)
  next
    assume a: "hosts \<noteq> []
      \<and> (\<forall>h\<in>set hosts. \<exists>msg. resolve (host_string h) = HostNotFoundException msg)"
    then have "\<forall>h\<in>set hosts. \<forall>e. resolve (host_string h) \<noteq> Uncaught e" by fastforce
    moreover from a have "\<not> (\<exists>h\<in>set hosts. \<exists>msg. resolve (host_string h) = DNSException msg)"
      by fastforce
    ultimately have r: "resolve_hosts resolve ?sh [] False =
       Inr (resolved_nodes resolve ?sh, False)" using run by simp
    from a have "\<forall>h\<in>set hosts. \<forall>address. resolve (host_string h) \<noteq> Resolved address"
      by fastforce
    then have "resolved_nodes resolve ?sh = []" using none by simp
    with r a show "init ''zookeeper'' hosts chroot get_priority draws resolve root_exists =
        Inl (KeeperException_message ''Cannot use any of provided ZooKeeper nodes'' ZBADARGUMENTS)"
      by (simp add: init_def)
  qed
qed


text \<open>C7 on two hosts: one resolves and the other is not found; one DNS error and one
  host not found; both not found.\<close>

theorem init_host_resolution_witness:
  "init ''zookeeper'' [''secure://a:2181'', ''b:2181''] [] None (\<lambda>i. i)
      (\<lambda>h. if h = ''a:2181'' then Resolved ''10.0.0.1:2181'' else HostNotFoundException ''no'')
      Never
     = Inr (ZooKeeper_impl [(''10.0.0.1:2181'', True)])
   \<and> init ''zookeeper'' [''secure://a:2181'', ''b:2181''] [] None (\<lambda>i. i)
      (\<lambda>h. if h = ''a:2181'' then DNSException ''dns'' else HostNotFoundException ''no'') Never
     = Inl (KeeperException_message
         ''Cannot resolve any of provided ZooKeeper hosts due to DNS error'' ZCONNECTIONLOSS)
   \<and> init ''zookeeper'' [''secure://a:2181'', ''b:2181''] [] None (\<lambda>i. i)
      (\<lambda>h. HostNotFoundException ''no'') Never
     = Inl (KeeperException_message ''Cannot use any of provided ZooKeeper nodes'' ZBADARGUMENTS)"
proof -
  have hs: "host_string ''secure://a:2181'' = ''a:2181''" "host_string ''b:2181'' = ''b:2181''"
    by (simp_all add: host_string_def startsWith_def)
  have a: "init ''zookeeper'' [''secure://a:2181'', ''b:2181''] [] None (\<lambda>i. i)
      (\<lambda>h. if h = ''a:2181'' then Resolved ''10.0.0.1:2181'' else HostNotFoundException ''no'')
      Never
     = Inr (ZooKeeper_impl [(''10.0.0.1:2181'', True)])"
    by (simp add: init_def shuffleHosts_def std_sort_def ShuffleHost_compare_def upt_rec
        startsWith_def check_root_def)
  have b: "init ''zookeeper'' [''secure://a:2181'', ''b:2181''] [] None (\<lambda>i. i)
      (\<lambda>h. if h = ''a:2181'' then DNSException ''dns'' else HostNotFoundException ''no'') Never
     = Inl (KeeperException_message
         ''Cannot resolve any of provided ZooKeeper hosts due to DNS error'' ZCONNECTIONLOSS)"
    using init_host_resolution [of "[''secure://a:2181'', ''b:2181'']"
      "\<lambda>h. if h = ''a:2181'' then DNSException ''dns'' else HostNotFoundException ''no''"
      "[]" None "\<lambda>i. i" Never]
    by (simp add: hs)
  have c: "init ''zookeeper'' [''secure://a:2181'', ''b:2181''] [] None (\<lambda>i. i)
      (\<lambda>h. HostNotFoundException ''no'') Never
     = Inl (KeeperException_message ''Cannot use any of provided ZooKeeper nodes'' ZBADARGUMENTS)"
    using init_host_resolution [of "[''secure://a:2181'', ''b:2181'']"
      "\<lambda>h. HostNotFoundException ''no''" "[]" None "\<lambda>i. i" Never]
    by simp
  have "\<exists>nodes. nodes \<noteq> [] \<and> init ''zookeeper'' [''secure://a:2181'', ''b:2181''] [] None (\<lambda>i. i)
      (\<lambda>h. if h = ''a:2181'' then Resolved ''10.0.0.1:2181'' else HostNotFoundException ''no'')
      Never = Inr (ZooKeeper_impl nodes)"
    using init_host_resolution [of "[''secure://a:2181'', ''b:2181'']"
      "\<lambda>h. if h = ''a:2181'' then Resolved ''10.0.0.1:2181'' else HostNotFoundException ''no''"
      "[]" None "\<lambda>i. i" Never]
    by (simp add: hs check_root_def)
  with a b c show ?thesis by simp
qed

section \<open>Properties: the disappearance waiter\<close>

text \<open>
  The outcomes of a turn whose wait succeeds: the read completing with \<open>ZNONODE\<close> gives
  true, the read completing with any other error raises \<^verbatim>\<open>KeeperException(code, path)\<close>, and
  a watch event of type \<open>DELETED\<close> (arriving while the code is still zero) gives true.
\<close>

lemma waitForDisappear_outcomes:
  "(get_raises t = None \<and> deliveries t = ds @ [Get_completed ZNONODE] \<longrightarrow>
      wait_loop path has_condition st (t # ts) = Some (Inr True))
 \<and> (get_raises t = None \<and> deliveries t = ds @ [Get_completed c] \<and> c \<noteq> ZOK \<and> c \<noteq> ZNONODE \<longrightarrow>
      wait_loop path has_condition st (t # ts) = Some (Inl (KeeperException_path c path)))
 \<and> (get_raises t = None \<and> deliveries t = ds @ [Watch_fired ZOK DELETED]
      \<and> state_code (foldl deliver st ds) = ZOK \<longrightarrow>
      wait_loop path has_condition st (t # ts) = Some (Inr True))"
  by (simp add: waitForDisappear_callback_def waitForDisappear_watch_def Let_def)

text \<open>With a condition that keeps returning false and no completion that sets the event,
  the loop goes on for as many turns as there are.\<close>

lemma still_waiting:
  "\<not> state_event st \<Longrightarrow> wait_loop path True st
     (replicate n \<lparr>get_raises = None, deliveries = [], condition_returns = False\<rparr>) = None"
  by (induction n) (simp_all add: Let_def)

text \<open>Whenever the loop returns false, a condition was passed and it has returned true at
  the end of some turn.\<close>

lemma wait_loop_false:
  "wait_loop path has_condition st turns = Some (Inr False)
     \<Longrightarrow> has_condition \<and> (\<exists>t\<in>set turns. condition_returns t)"
proof (induction turns arbitrary: st)
  case Nil
  then show ?case by simp
next
  case (Cons t ts)
  show ?case
  proof (cases "has_condition \<and> condition_returns t")
    case True
    then show ?thesis by simp
  next
    case False
    with Cons.prems obtain st' where "wait_loop path has_condition st' ts = Some (Inr False)"
      by (auto simp: Let_def split: option.splits if_splits)
    from Cons.IH[OF this] show ?thesis by simp
  qed
qed

text \<open>
  Claim C6, the part on the condition. The loop runs \<^verbatim>\<open>while (!condition || !condition())\<close>:
  it returns false as soon as the condition returns true. On an existing node (the read
  completes with \<open>ZOK\<close>, no watch event in the turn) and a condition that returns true,
  \<^verbatim>\<open>waitForDisappear\<close> returns false after the first turn, although the condition has never
  been false; with a condition that returns false at every turn it never returns false.
\<close>

theorem waitForDisappear_condition_polarity:
  "waitForDisappear ''/a'' True
     [\<lparr>get_raises = None, deliveries = [Get_completed ZOK], condition_returns = True\<rparr>]
     = Some (Inr False)
 \<and> (\<forall>n. waitForDisappear ''/a'' True
       (replicate n \<lparr>get_raises = None, deliveries = [], condition_returns = False\<rparr>) = None)"
  by (simp add: waitForDisappear_def still_waiting initial_state_def waitForDisappear_callback_def Let_def)

section \<open>Properties: the recursive deletion engine\<close>




text \<open>The flag of the \<^verbatim>\<open>while\<close> loop: it stays true exactly as long as every \<^verbatim>\<open>tryMulti\<close>
  of this loop returns \<open>ZOK\<close>.\<close>

lemma try_remove_loop_flag:
  "try_remove_loop rec eng batch_size path probably_flat keep_child_node children
       removed_as_expected codes s = Some (Inr (b, codes'), s')
     \<Longrightarrow> \<exists>new. codes' = codes @ new
           \<and> (b \<longleftrightarrow> removed_as_expected \<and> (\<forall>c\<in>set new. c = ZOK))"
proof (induction rec eng batch_size path probably_flat keep_child_node children
       removed_as_expected codes s rule: try_remove_loop.induct)
  case (1 rec eng batch_size path probably_flat keep_child_node children removed_as_expected codes s)
  show ?case
  proof (cases "children = []")
    case True
    with "1.prems" show ?thesis by (subst (asm) try_remove_loop.simps) simp
  next
    case ne: False
    show ?thesis
    proof (cases "batch_size = 0")
      case True
      with "1.prems" ne show ?thesis by (subst (asm) try_remove_loop.simps) simp
    next
      case b0: False
      from "1.prems" ne b0 obtain children1 ops batch s1 where
        tb: "try_remove_batch rec path probably_flat keep_child_node batch_size children [] [] s
             = Some (Inr (children1, ops, batch), s1)"
        by (subst (asm) try_remove_loop.simps) (auto split: option.splits sum.splits prod.splits)
      from "1.prems" ne b0 tb obtain code resps s2 where
        tm: "tryMulti eng ops [] s1 = (Inr (code, resps), s2)"
        by (subst (asm) try_remove_loop.simps) (auto split: option.splits sum.splits prod.splits)
      show ?thesis
      proof (cases "code = ZOK")
        case True
        with "1.prems" ne b0 tb tm have
          "try_remove_loop rec eng batch_size path probably_flat keep_child_node children1
             removed_as_expected (codes @ [code]) s2 = Some (Inr (b, codes'), s')"
          by (subst (asm) try_remove_loop.simps) simp
        from "1.IH"(1)[OF ne b0 tb refl refl refl refl tm[symmetric] refl refl True this]
        obtain new where "codes' = (codes @ [code]) @ new"
          "b \<longleftrightarrow> removed_as_expected \<and> (\<forall>c\<in>set new. c = ZOK)" by blast
        with True show ?thesis by (intro exI[of _ "code # new"]) simp
      next
        case False
        with "1.prems" ne b0 tb tm obtain futures s3 where
          sr: "submit_removes eng batch [] s2 = (Inr futures, s3)"
          by (subst (asm) try_remove_loop.simps) (auto split: option.splits sum.splits prod.splits)
        with False "1.prems" ne b0 tb tm obtain u s4 where
          aw: "await_removes rec eng probably_flat (zip batch futures) s3 = Some (Inr u, s4)"
          by (subst (asm) try_remove_loop.simps) (auto split: option.splits sum.splits prod.splits)
        with sr False "1.prems" ne b0 tb tm have
          "try_remove_loop rec eng batch_size path probably_flat keep_child_node children1
             False (codes @ [code]) s4 = Some (Inr (b, codes'), s')"
          by (subst (asm) try_remove_loop.simps) simp
        from "1.IH"(2)[OF ne b0 tb refl refl refl refl tm[symmetric] refl refl False
            sr[symmetric] refl aw refl refl this]
        obtain new where "codes' = (codes @ [code]) @ new"
          "b \<longleftrightarrow> False \<and> (\<forall>c\<in>set new. c = ZOK)" by blast
        with False show ?thesis by (intro exI[of _ "code # new"]) simp
      qed
    qed
  qed
qed

text \<open>
  Claim C4 (amended). When the listing of the root by \<^verbatim>\<open>tryGetChildren\<close> returns a code
  other than \<open>ZOK\<close> (which can only be \<open>ZNONODE\<close>: every other code is raised by
  \<^verbatim>\<open>tryGetChildren\<close>), \<^verbatim>\<open>tryRemoveChildrenRecursive\<close> returns false without raising. Otherwise,
  when it returns, it returns true if and only if \<^verbatim>\<open>tryMulti\<close> returned \<open>ZOK\<close> for every batch
  of removals of the direct children of the path, that is, if the fallback was taken for
  none of its own batches. What happens inside the recursive calls on the children is not
  part of the flag.
\<close>

theorem tryRemoveChildrenRecursive_flag:
  "(tryGetChildren eng path [] None None s = (Inr (code, children, st), sa) \<and> code \<noteq> ZOK \<longrightarrow>
      code = ZNONODE
      \<and> tryRemoveChildrenRecursive (Suc depth) eng batch_size path probably_flat keep_child_node s
          = Some (Inr False, sa))
 \<and> (tryGetChildren eng path [] None None s = (Inr (ZOK, children, st), sa)
      \<and> tryRemoveChildrenRecursive (Suc depth) eng batch_size path probably_flat keep_child_node s
          = Some (Inr b, sb) \<longrightarrow>
      (\<exists>codes.
         try_remove_loop
           (\<lambda>child. tryRemoveChildrenRecursive depth eng batch_size child
                      default_probably_flat default_keep_child_node)
           eng batch_size path probably_flat keep_child_node children True [] sa
           = Some (Inr (b, codes), sb)
         \<and> (b \<longleftrightarrow> (\<forall>c\<in>set codes. c = ZOK))))"
proof (intro conjI impI)
  assume a: "tryGetChildren eng path [] None None s = (Inr (code, children, st), sa) \<and> code \<noteq> ZOK"
  then show "code = ZNONODE"
    by (auto simp: tryGetChildren_def split: prod.splits sum.splits if_splits)
  from a show "tryRemoveChildrenRecursive (Suc depth) eng batch_size path probably_flat
      keep_child_node s = Some (Inr False, sa)"
    by simp
next
  assume a: "tryGetChildren eng path [] None None s = (Inr (ZOK, children, st), sa)
      \<and> tryRemoveChildrenRecursive (Suc depth) eng batch_size path probably_flat keep_child_node s
          = Some (Inr b, sb)"
  let ?rec = "\<lambda>child. tryRemoveChildrenRecursive depth eng batch_size child
                      default_probably_flat default_keep_child_node"
  from a obtain codes where
    l: "try_remove_loop ?rec eng batch_size path probably_flat keep_child_node children True [] sa
         = Some (Inr (b, codes), sb)"
    by (auto split: option.splits sum.splits prod.splits)
  from try_remove_loop_flag[OF l] have "b \<longleftrightarrow> (\<forall>c\<in>set codes. c = ZOK)" by simp
  with l show "\<exists>codes.
         try_remove_loop ?rec eng batch_size path probably_flat keep_child_node children True [] sa
           = Some (Inr (b, codes), sb)
         \<and> (b \<longleftrightarrow> (\<forall>c\<in>set codes. c = ZOK))" by blast
qed

text \<open>Runs on the scripted engine: the root is gone; one child whose batch fails with
  \<open>ZNONODE\<close> and is then removed one by one.\<close>

lemma run_root_gone:
  "tryGetChildren script_engine ''/a'' [] None None
      \<lparr>script = [Replies True ZNONODE [] []], calls = []\<rparr>
     = (Inr (ZNONODE, [], None), \<lparr>script = [], calls = [Call_list ''/a'' Empty_callback]\<rparr>)"
  by (simp add: tryGetChildren_def getChildrenImpl_def script_engine_def submit_reply)


lemma run_fallback_list:
  "tryGetChildren script_engine ''/a'' [] None None
      \<lparr>script = [Replies True ZOK [''x''] [], Replies True ZNONODE [] [ZNONODE],
                 Replies True ZNONODE [] []], calls = []\<rparr>
     = (Inr (ZOK, [''x''], None),
        \<lparr>script = [Replies True ZNONODE [] [ZNONODE], Replies True ZNONODE [] []],
         calls = [Call_list ''/a'' Empty_callback]\<rparr>)"
  by (simp add: tryGetChildren_def getChildrenImpl_def script_engine_def submit_reply)

lemma run_fallback:
  "tryRemoveChildrenRecursive (Suc 0) script_engine (Suc (Suc 0)) ''/a'' True []
      \<lparr>script = [Replies True ZOK [''x''] [], Replies True ZNONODE [] [ZNONODE],
                 Replies True ZNONODE [] []], calls = []\<rparr>
     = Some (Inr False,
        \<lparr>script = [],
         calls = [Call_list ''/a'' Empty_callback, Call_multi [RemoveRequest ''/a/x'' (- 1)],
                  Call_remove ''/a/x'' (- 1)]\<rparr>)"
  by (simp add: try_remove_loop.simps tryGetChildren_def getChildrenImpl_def script_engine_def
      submit_reply tryMulti_def multiImpl_def isUserError_def asyncTryRemoveNoThrow_def
      path_join_def makeRemoveRequest_def)

text \<open>C4 on the two runs: false for the root that is gone, and false after a fallback,
  with a batch code that is not \<open>ZOK\<close>.\<close>

theorem tryRemoveChildrenRecursive_flag_witness:
  "tryRemoveChildrenRecursive (Suc 0) script_engine (Suc (Suc 0)) ''/a'' False []
      \<lparr>script = [Replies True ZNONODE [] []], calls = []\<rparr>
     = Some (Inr False, \<lparr>script = [], calls = [Call_list ''/a'' Empty_callback]\<rparr>)
 \<and> (\<exists>codes.
       try_remove_loop
         (\<lambda>child. tryRemoveChildrenRecursive 0 script_engine (Suc (Suc 0)) child
                    default_probably_flat default_keep_child_node)
         script_engine (Suc (Suc 0)) ''/a'' True [] [''x''] True []
         \<lparr>script = [Replies True ZNONODE [] [ZNONODE], Replies True ZNONODE [] []],
          calls = [Call_list ''/a'' Empty_callback]\<rparr>
       = Some (Inr (False, codes),
           \<lparr>script = [],
            calls = [Call_list ''/a'' Empty_callback, Call_multi [RemoveRequest ''/a/x'' (- 1)],
                     Call_remove ''/a/x'' (- 1)]\<rparr>)
       \<and> \<not> (\<forall>c\<in>set codes. c = ZOK))"
  using tryRemoveChildrenRecursive_flag [where eng = script_engine and path = "''/a''"
      and s = "\<lparr>script = [Replies True ZNONODE [] []], calls = []\<rparr>" and code = ZNONODE
      and children = "[]" and st = None
      and sa = "\<lparr>script = [], calls = [Call_list ''/a'' Empty_callback]\<rparr>"
      and depth = 0 and batch_size = "Suc (Suc 0)" and probably_flat = False
      and keep_child_node = "[]"]
    tryRemoveChildrenRecursive_flag [where eng = script_engine and path = "''/a''"
      and s = "\<lparr>script = [Replies True ZOK [''x''] [], Replies True ZNONODE [] [ZNONODE],
                 Replies True ZNONODE [] []], calls = []\<rparr>"
      and children = "[''x'']" and st = None
      and sa = "\<lparr>script = [Replies True ZNONODE [] [ZNONODE], Replies True ZNONODE [] []],
         calls = [Call_list ''/a'' Empty_callback]\<rparr>"
      and depth = 0 and batch_size = "Suc (Suc 0)" and probably_flat = True
      and keep_child_node = "[]" and b = False
      and sb = "\<lparr>script = [],
         calls = [Call_list ''/a'' Empty_callback, Call_multi [RemoveRequest ''/a/x'' (- 1)],
                  Call_remove ''/a/x'' (- 1)]\<rparr>"]
    run_root_gone run_fallback_list run_fallback
  by simp

text \<open>
  Claim C4 as stated fails: the result of the recursive call on a child is discarded. On
  the tree /a/b/c, another client removes /a/b/c after it has been listed: the call on /a/b
  sees its batch fail with \<open>ZNONODE\<close> and falls back to removing /a/b/c by itself (the
  \<open>Call_remove\<close> below), and the call on /a still returns true.
\<close>

theorem nested_fallback_counterexample:
  "tryRemoveChildrenRecursive (Suc (Suc (Suc 0))) script_engine (Suc (Suc 0)) ''/a'' False []
      \<lparr>script = [Replies True ZOK [''b''] [], Replies True ZOK [''c''] [],
                 Replies True ZOK [] [], Replies True ZNONODE [] [ZNONODE],
                 Replies True ZNONODE [] [], Replies True ZOK [] [ZOK]],
       calls = []\<rparr>
     = Some (Inr True,
        \<lparr>script = [],
         calls = [Call_list ''/a'' Empty_callback, Call_list ''/a/b'' Empty_callback,
                  Call_list ''/a/b/c'' Empty_callback,
                  Call_multi [RemoveRequest ''/a/b/c'' (- 1)],
                  Call_remove ''/a/b/c'' (- 1),
                  Call_multi [RemoveRequest ''/a/b'' (- 1)]]\<rparr>)"
  by (simp add: try_remove_loop.simps tryGetChildren_def getChildrenImpl_def script_engine_def
      submit_reply tryMulti_def multiImpl_def isUserError_def asyncTryRemoveNoThrow_def
      path_join_def makeRemoveRequest_def default_probably_flat_def
      default_keep_child_node_def)













end
